theory Spec2Isabelle
  imports Complex_Main "HOL-Library.List_Lexorder" "HOL-Library.Char_ord"
    "HOL-Library.Product_Lexorder"
begin

section \<open>Numbers and strings of the language\<close>

text \<open>
  The task routes (\<^verbatim>\<open>routes/tasks.js\<close>) are JavaScript. A number of the language is a
  double; here a finite number is an exact rational, and the three values that are not
  finite are kept apart. The arithmetic the routes do (a page offset, a sum of hours, a
  rate) is the arithmetic of these values without the rounding of doubles.
\<close>

datatype number = NaN | Fin rat | PosInf | NegInf

fun num_neg :: "number \<Rightarrow> number" where
  "num_neg NaN = NaN"
| "num_neg (Fin r) = Fin (- r)"
| "num_neg PosInf = NegInf"
| "num_neg NegInf = PosInf"

fun num_add :: "number \<Rightarrow> number \<Rightarrow> number" where
  "num_add (Fin a) (Fin b) = Fin (a + b)"
| "num_add NaN _ = NaN"
| "num_add _ NaN = NaN"
| "num_add PosInf NegInf = NaN"
| "num_add NegInf PosInf = NaN"
| "num_add PosInf _ = PosInf"
| "num_add NegInf _ = NegInf"
| "num_add _ PosInf = PosInf"
| "num_add _ NegInf = NegInf"

definition num_sub :: "number \<Rightarrow> number \<Rightarrow> number" where
  "num_sub a b = num_add a (num_neg b)"

fun num_sign :: "number \<Rightarrow> int" where
  "num_sign (Fin r) = (if r < 0 then - 1 else if r = 0 then 0 else 1)"
| "num_sign PosInf = 1"
| "num_sign NegInf = - 1"
| "num_sign NaN = 0"

fun num_mul :: "number \<Rightarrow> number \<Rightarrow> number" where
  "num_mul (Fin a) (Fin b) = Fin (a * b)"
| "num_mul NaN _ = NaN"
| "num_mul _ NaN = NaN"
| "num_mul a b =
     (if num_sign a * num_sign b = 0 then NaN
      else if num_sign a * num_sign b > 0 then PosInf else NegInf)"

text \<open>\<^verbatim>\<open>a < b\<close> on numbers: false as soon as one side is \<^verbatim>\<open>NaN\<close>.\<close>

fun num_less :: "number \<Rightarrow> number \<Rightarrow> bool" where
  "num_less (Fin a) (Fin b) = (a < b)"
| "num_less NaN _ = False"
| "num_less _ NaN = False"
| "num_less NegInf b = (b \<noteq> NegInf)"
| "num_less a PosInf = (a \<noteq> PosInf)"
| "num_less _ _ = False"

text \<open>\<^verbatim>\<open>Math.round\<close>: the nearest integer, a half going up.\<close>

definition Math_round :: "rat \<Rightarrow> int" where
  "Math_round x = \<lfloor>x + 1 / 2\<rfloor>"

text \<open>
  A string is a list of characters with codes below 256. The white space that
  \<^verbatim>\<open>trim\<close>, \<^verbatim>\<open>parseInt\<close> and the conversion to a number skip is, among these codes,
  TAB, LF, VT, FF, CR, the space and the no-break space.
\<close>

definition is_ws :: "char \<Rightarrow> bool" where
  "is_ws c = ((of_char c :: nat) \<in> set [9, 10, 11, 12, 13, 32, 160])"

definition trimStart :: "string \<Rightarrow> string" where
  "trimStart s = dropWhile is_ws s"

definition trim :: "string \<Rightarrow> string" where
  "trim s = rev (dropWhile is_ws (rev (dropWhile is_ws s)))"

text \<open>The value of a digit in a radix up to 36, \<open>None\<close> for any other character.\<close>

definition digit_value :: "nat \<Rightarrow> char \<Rightarrow> nat option" where
  "digit_value radix c =
    (let n = (of_char c :: nat);
         v = (if 48 \<le> n \<and> n \<le> 57 then Some (n - 48)
              else if 97 \<le> n \<and> n \<le> 122 then Some (n - 87)
              else if 65 \<le> n \<and> n \<le> 90 then Some (n - 55)
              else None)
     in case v of None \<Rightarrow> None | Some k \<Rightarrow> if k < radix then Some k else None)"

definition is_digit :: "nat \<Rightarrow> char \<Rightarrow> bool" where
  "is_digit radix c = (digit_value radix c \<noteq> None)"

definition digits_value :: "nat \<Rightarrow> string \<Rightarrow> nat" where
  "digits_value radix s =
    foldl (\<lambda>a c. case digit_value radix c of None \<Rightarrow> a | Some k \<Rightarrow> a * radix + k) 0 s"

definition all_digits :: "nat \<Rightarrow> string \<Rightarrow> nat option" where
  "all_digits radix s =
    (if s \<noteq> [] \<and> list_all (is_digit radix) s then Some (digits_value radix s) else None)"

text \<open>
  \<^verbatim>\<open>parseInt(s)\<close> with no radix: leading white space and a sign are skipped, a prefix
  \<^verbatim>\<open>0x\<close> selects radix 16, and the longest run of digits is read; no digit gives
  \<^verbatim>\<open>NaN\<close>. Whatever follows the digits is ignored.
\<close>

definition parseInt_string :: "string \<Rightarrow> number" where
  "parseInt_string s =
    (let s1 = trimStart s;
         neg = (case s1 of [] \<Rightarrow> False | c # _ \<Rightarrow> c = CHR ''-'');
         s2 = (case s1 of [] \<Rightarrow> [] | c # t \<Rightarrow> if c = CHR ''+'' \<or> c = CHR ''-'' then t else s1);
         hex = (case s2 of a # b # _ \<Rightarrow> a = CHR ''0'' \<and> (b = CHR ''x'' \<or> b = CHR ''X'') | _ \<Rightarrow> False);
         radix = (if hex then 16 else 10);
         s3 = (if hex then drop 2 s2 else s2);
         z = takeWhile (is_digit radix) s3
     in if z = [] then NaN
        else Fin (of_int ((if neg then - 1 else 1) * int (digits_value radix z))))"

text \<open>
  The conversion of a string to a number, which \<^verbatim>\<open>-\<close>, \<^verbatim>\<open>*\<close> and \<^verbatim>\<open>>\<close> apply to a
  string operand: the trimmed string is empty (zero), a literal in radix 16, 8 or 2, or
  a signed decimal literal with an optional fraction and exponent, or \<^verbatim>\<open>Infinity\<close>;
  anything else is \<^verbatim>\<open>NaN\<close>.
\<close>

definition exponent_part :: "string \<Rightarrow> int option" where
  "exponent_part s =
    (case s of
       [] \<Rightarrow> Some 0
     | c # t \<Rightarrow>
        if c = CHR ''e'' \<or> c = CHR ''E'' then
          (case t of
             [] \<Rightarrow> None
           | sg # ds \<Rightarrow>
              if sg = CHR ''+'' then map_option int (all_digits 10 ds)
              else if sg = CHR ''-'' then map_option (\<lambda>n. - int n) (all_digits 10 ds)
              else map_option int (all_digits 10 t))
        else None)"

definition unsigned_decimal :: "string \<Rightarrow> number" where
  "unsigned_decimal s =
    (if s = ''Infinity'' then PosInf
     else
      (let ip = takeWhile (is_digit 10) s;
           r1 = dropWhile (is_digit 10) s;
           dot = (case r1 of [] \<Rightarrow> False | c # _ \<Rightarrow> c = CHR ''.'');
           fp = (if dot then takeWhile (is_digit 10) (tl r1) else []);
           r2 = (if dot then dropWhile (is_digit 10) (tl r1) else r1)
       in if ip = [] \<and> fp = [] then NaN
          else case exponent_part r2 of
                 None \<Rightarrow> NaN
               | Some x \<Rightarrow>
                  (let m = (of_nat (digits_value 10 (ip @ fp)) :: rat) / 10 ^ length fp
                   in Fin (if 0 \<le> x then m * 10 ^ nat x else m / 10 ^ nat (- x)))))"

definition non_decimal :: "string \<Rightarrow> nat option" where
  "non_decimal s =
    (case s of
       a # b # t \<Rightarrow>
        if a \<noteq> CHR ''0'' then None
        else if b = CHR ''x'' \<or> b = CHR ''X'' then all_digits 16 t
        else if b = CHR ''o'' \<or> b = CHR ''O'' then all_digits 8 t
        else if b = CHR ''b'' \<or> b = CHR ''B'' then all_digits 2 t
        else None
     | _ \<Rightarrow> None)"

definition StringToNumber :: "string \<Rightarrow> number" where
  "StringToNumber s =
    (let t = trim s in
     case t of
       [] \<Rightarrow> Fin 0
     | c # u \<Rightarrow>
        (case non_decimal t of
           Some n \<Rightarrow> Fin (of_nat n)
         | None \<Rightarrow>
            if c = CHR ''+'' then unsigned_decimal u
            else if c = CHR ''-'' then num_neg (unsigned_decimal u)
            else unsigned_decimal t))"

text \<open>The decimal digits of an integer, as the conversion of a number to a string
  writes an integer below \<open>10\<^sup>2\<^sup>1\<close>.\<close>

fun show_nat :: "nat \<Rightarrow> string" where
  "show_nat n =
    (if n < 10 then [char_of (48 + n)] else show_nat (n div 10) @ [char_of (48 + n mod 10)])"

declare show_nat.simps [simp del]

definition show_int :: "int \<Rightarrow> string" where
  "show_int i = (if i < 0 then CHR ''-'' # show_nat (nat (- i)) else show_nat (nat i))"

definition pad :: "nat \<Rightarrow> string \<Rightarrow> string" where
  "pad n s = replicate (n - length s) CHR ''0'' @ s"

text \<open>
  A date is its time value, the milliseconds since the epoch, in universal time.
  \<open>civil_from_days\<close> gives the year, month and day of the month of a day number in the
  proleptic Gregorian calendar: counted from the first of March of year 0, the days fall
  into eras of 400 years (146097 days), centuries (36524 days, the fourth one day longer),
  cycles of four years (1461 days, the last of a century one day shorter) and years (365
  days, the fourth one day longer). \<open>days_from_civil\<close> is the day number of a calendar
  date.
  \<^verbatim>\<open>toISOString\<close> writes \<^verbatim>\<open>YYYY-MM-DDTHH:mm:ss.sssZ\<close>, the year with a sign and six
  digits when it is not within 0 to 9999.
\<close>

definition civil_from_days :: "int \<Rightarrow> int \<times> int \<times> int" where
  "civil_from_days z0 =
    (let z = z0 + 719468;
         era = z div 146097;
         doe = z mod 146097;
         c = min (doe div 36524) 3;
         r = doe - 36524 * c;
         q = min (r div 1461) 24;
         s = r - 1461 * q;
         yy = min (s div 365) 3;
         doy = s - 365 * yy;
         yoe = 100 * c + 4 * q + yy;
         mp = (5 * doy + 2) div 153;
         d = doy - (153 * mp + 2) div 5 + 1;
         m = (if mp < 10 then mp + 3 else mp - 9);
         y = yoe + era * 400 + (if m \<le> 2 then 1 else 0)
     in (y, m, d))"

definition days_from_civil :: "int \<times> int \<times> int \<Rightarrow> int" where
  "days_from_civil ymd =
    (case ymd of (y0, m, d) \<Rightarrow>
      (let y = (if m \<le> 2 then y0 - 1 else y0);
           era = y div 400;
           yoe = y mod 400;
           doy = (153 * (if m > 2 then m - 3 else m + 9) + 2) div 5 + d - 1;
           doe = yoe * 365 + yoe div 4 - yoe div 100 + doy
       in era * 146097 + doe - 719468))"

definition date_string :: "int \<times> int \<times> int \<Rightarrow> string" where
  "date_string ymd =
    (case ymd of (y, m, d) \<Rightarrow>
      (if 0 \<le> y \<and> y \<le> 9999 then pad 4 (show_nat (nat y))
       else (if y < 0 then CHR ''-'' else CHR ''+'') # pad 6 (show_nat (nat \<bar>y\<bar>)))
      @ ''-'' @ pad 2 (show_nat (nat m)) @ ''-'' @ pad 2 (show_nat (nat d)))"

definition time_string :: "int \<Rightarrow> string" where
  "time_string ms =
    pad 2 (show_nat (nat (ms div 3600000))) @ '':''
    @ pad 2 (show_nat (nat (ms div 60000 mod 60))) @ '':''
    @ pad 2 (show_nat (nat (ms div 1000 mod 60))) @ ''.''
    @ pad 3 (show_nat (nat (ms mod 1000)))"

definition toISOString :: "int \<Rightarrow> string" where
  "toISOString t =
    date_string (civil_from_days (t div 86400000)) @ ''T'' @ time_string (t mod 86400000) @ ''Z''"

text \<open>\<^verbatim>\<open>s.split(sep)\<close> for a separator of one character.\<close>

fun split :: "char \<Rightarrow> string \<Rightarrow> string list" where
  "split sep [] = [[]]"
| "split sep (c # cs) =
    (if c = sep then [] # split sep cs
     else case split sep cs of [] \<Rightarrow> [[c]] | x # xs \<Rightarrow> (c # x) # xs)"

section \<open>Values, documents and the database\<close>

text \<open>
  A request body and a Mongoose document are objects with string keys. A value is a JSON
  value, a number that is not finite, or a date (\<^verbatim>\<open>new Date(...)\<close>), whose time value is
  \<open>None\<close> when the date is invalid.
\<close>

datatype json =
    JNull
  | JBool bool
  | JNum number
  | JStr string
  | JDate "int option"
  | JArr "json list"
  | JObj "(string \<times> json) list"

text \<open>A request body is a JSON object and keeps its keys in order (\<^verbatim>\<open>Object.keys\<close>);
  a stored document and an update object are looked up by key only.\<close>

type_synonym body = "(string \<times> json) list"
type_synonym document = "string \<rightharpoonup> json"

text \<open>\<^verbatim>\<open>req.user\<close>, as the \<^verbatim>\<open>authenticate\<close> middleware leaves it.\<close>

record caller =
  user_id :: string
  user_role :: string

text \<open>The fields of a user document that the task routes read or write.\<close>

record user_doc =
  user_name :: string
  user_email :: string
  user_doc_role :: string
  user_department :: string
  assignedTasks :: "string list"

record db =
  tasks :: "string \<rightharpoonup> document"
  users :: "string \<rightharpoonup> user_doc"

text \<open>The HTTP status a handler answers with (200, 201, 400, 403, 404, 500); a success
  carries the payload.\<close>

datatype 'a response =
    OK 'a
  | Created 'a
  | BadRequest
  | Forbidden
  | NotFound
  | ServerError

text \<open>A \<^verbatim>\<open>query\<close> or \<^verbatim>\<open>matchQuery\<close> object: the conjunction of the components that
  are set. A status is matched against one value or against any of a list;
  \<open>query_createdAt\<close> holds the two bounds \<^verbatim>\<open>$gte\<close> and \<^verbatim>\<open>$lte\<close>; \<open>query_or\<close> is the
  source of the case-insensitive pattern searched in the title, the description and the
  tags.\<close>

datatype status_pred = StatusIs string | StatusIn "string list"

record task_query =
  query_assignedTo :: "string option"
  query_status :: "status_pred option"
  query_priority :: "string option"
  query_category :: "string option"
  query_createdAt :: "(int option \<times> int option) option"
  query_or :: "string option"

text \<open>
  What the handlers call but the routes file does not define: the validators of
  express-validator, the \<^verbatim>\<open>Date\<close> and \<^verbatim>\<open>RegExp\<close> constructors of the language, the
  database's test of a document against a query (\<open>matches\<close>), and the Mongoose schema of
  \<^verbatim>\<open>Task\<close> (its validators, run on an update object by \<^verbatim>\<open>runValidators\<close> and on a
  document by \<^verbatim>\<open>save\<close>, and its defaults). They are parameters of the model. A validator
  sees the value of one body field, \<open>None\<close> when the field is absent. \<open>newDate\<close> gives the
  time value, \<open>None\<close> for an invalid date. Casting by the schema is not modelled: a value
  is stored as it was supplied. A failure of the database itself is not modelled either.
\<close>

record env =
  notEmpty :: "json option \<Rightarrow> bool"
  isMongoId :: "json option \<Rightarrow> bool"
  isISO8601 :: "json option \<Rightarrow> bool"
  isIn :: "string list \<Rightarrow> json option \<Rightarrow> bool"
  newDate :: "json option \<Rightarrow> int option"
  RegExp_valid :: "string \<Rightarrow> bool"
  matches :: "task_query \<Rightarrow> document \<Rightarrow> bool"
  update_validators :: "document \<Rightarrow> bool"
  save_validators :: "document \<Rightarrow> bool"
  schema_defaults :: "document"

text \<open>\<^verbatim>\<open>['admin', 'hr'].includes(req.user.role)\<close>\<close>

definition isAdminOrHR :: "caller \<Rightarrow> bool" where
  "isAdminOrHR user = (user_role user \<in> set [''admin'', ''hr''])"

text \<open>Modelled from the spec: the \<^verbatim>\<open>authorize\<close> middleware of \<^verbatim>\<open>middleware/auth.js\<close>,
  which is not among the sources. A route behind \<^verbatim>\<open>authorize(r1, ..., rn)\<close> is for
  callers with one of these roles only; any other caller is answered with access denied
  and the handler does not run.\<close>

definition authorize :: "string list \<Rightarrow> caller \<Rightarrow> bool" where
  "authorize roles user = (user_role user \<in> set roles)"

text \<open>\<^verbatim>\<open>task.assignedTo.toString()\<close>: the id a reference field holds. The call throws on a
  missing field (\<open>None\<close>); the schema's reference type excludes the other kinds of value,
  which are treated alike.\<close>

fun ref_id :: "json option \<Rightarrow> string option" where
  "ref_id (Some (JStr s)) = Some s"
| "ref_id _ = None"

text \<open>The truth value of a query parameter: absent and the empty string are false.\<close>

definition truthy :: "string option \<Rightarrow> bool" where
  "truthy v = (case v of None \<Rightarrow> False | Some s \<Rightarrow> s \<noteq> [])"

section \<open>GET /api/tasks\<close>

text \<open>\<^verbatim>\<open>req.query\<close>: each parameter is absent or a string (a parameter given twice, which
  the query parser turns into an array, is left out).\<close>

record list_query =
  q_assignedTo :: "string option"
  q_status :: "string option"
  q_priority :: "string option"
  q_category :: "string option"
  q_search :: "string option"
  q_page :: "string option"
  q_limit :: "string option"
  q_sortBy :: "string option"
  q_sortOrder :: "string option"

text \<open>A variable destructured with a numeric default, \<^verbatim>\<open>page = 1\<close>: the integer of the
  default when the parameter is absent, the string supplied otherwise.\<close>

datatype qv = QInt int | QStr string

definition with_default :: "int \<Rightarrow> string option \<Rightarrow> qv" where
  "with_default dflt v = (case v of None \<Rightarrow> QInt dflt | Some s \<Rightarrow> QStr s)"

fun ToNumber :: "qv \<Rightarrow> number" where
  "ToNumber (QInt i) = Fin (of_int i)"
| "ToNumber (QStr s) = StringToNumber s"

fun ToString :: "qv \<Rightarrow> string" where
  "ToString (QInt i) = show_int i"
| "ToString (QStr s) = s"

definition parseInt :: "qv \<Rightarrow> number" where
  "parseInt v = parseInt_string (ToString v)"

text \<open>What the handler asks of the database, and the part of the pagination block that
  does not depend on the number of tasks found.\<close>

record list_result =
  find_query :: task_query
  find_sort :: "string \<times> number"
  find_skip :: number
  find_limit :: number
  currentPage :: number
  hasPrev :: bool

text \<open>The task visibility rules, lines 28 to 37.\<close>

definition visible_assignee :: "caller \<Rightarrow> string option \<Rightarrow> string" where
  "visible_assignee user assignedTo =
    (if \<not> isAdminOrHR user then user_id user
     else if truthy assignedTo then (case assignedTo of Some a \<Rightarrow> a | None \<Rightarrow> user_id user)
     else user_id user)"

definition status_filter :: "string option \<Rightarrow> status_pred option" where
  "status_filter status =
    (case status of
       None \<Rightarrow> None
     | Some s \<Rightarrow>
        if s \<noteq> [] \<and> s \<noteq> ''all'' then
          (if CHR '','' \<in> set s then Some (StatusIn (map trim (split CHR '','' s)))
           else Some (StatusIs s))
        else None)"

definition plain_filter :: "string option \<Rightarrow> string option" where
  "plain_filter v = (if truthy v \<and> v \<noteq> Some ''all'' then v else None)"

definition search_filter :: "string option \<Rightarrow> string option" where
  "search_filter v = (if truthy v then v else None)"

text \<open>\<^verbatim>\<open>new RegExp(search, 'i')\<close> throws on a pattern that is not well formed.\<close>

definition RegExp_throws :: "env \<Rightarrow> string option \<Rightarrow> bool" where
  "RegExp_throws e pattern = (case pattern of None \<Rightarrow> False | Some s \<Rightarrow> \<not> RegExp_valid e s)"

definition get_tasks :: "env \<Rightarrow> caller \<Rightarrow> list_query \<Rightarrow> list_result response" where
  "get_tasks e user q =
    (let page = with_default 1 (q_page q);
         limit = with_default 10 (q_limit q);
         sortBy = (case q_sortBy q of None \<Rightarrow> ''createdAt'' | Some s \<Rightarrow> s);
         sortOrder = with_default (- 1) (q_sortOrder q);
         query = \<lparr>query_assignedTo = Some (visible_assignee user (q_assignedTo q)),
                  query_status = status_filter (q_status q),
                  query_priority = plain_filter (q_priority q),
                  query_category = plain_filter (q_category q),
                  query_createdAt = None,
                  query_or = search_filter (q_search q)\<rparr>
     in if RegExp_throws e (query_or query) then ServerError
        else OK \<lparr>find_query = query,
                 find_sort = (sortBy, parseInt sortOrder),
                 find_skip = num_mul (num_sub (ToNumber page) (Fin 1)) (ToNumber limit),
                 find_limit = parseInt limit,
                 currentPage = parseInt page,
                 hasPrev = num_less (Fin 1) (ToNumber page)\<rparr>)"

section \<open>GET /api/tasks/:id\<close>


section \<open>POST /api/tasks\<close>

text \<open>The names destructured from the body.\<close>

definition task_fields :: "string list" where
  "task_fields = [''title'', ''description'', ''priority'', ''assignedTo'', ''dueDate'',
    ''estimatedHours'', ''category'', ''tags'', ''dependencies'', ''isRecurring'',
    ''recurringPattern'']"

definition validate_task :: "env \<Rightarrow> body \<Rightarrow> bool" where
  "validate_task e b =
    (notEmpty e (map_of b ''title'') \<and>
     notEmpty e (map_of b ''description'') \<and>
     isMongoId e (map_of b ''assignedTo'') \<and>
     isISO8601 e (map_of b ''dueDate'') \<and>
     isIn e [''low'', ''medium'', ''high'', ''urgent''] (map_of b ''priority'') \<and>
     isIn e [''development'', ''design'', ''testing'', ''documentation'', ''meeting'',
             ''research'', ''other''] (map_of b ''category''))"

text \<open>\<^verbatim>\<open>new Task({...})\<close>: the fields the body supplies and the creator, over the defaults
  of the schema; a name the body lacks is \<^verbatim>\<open>undefined\<close> and sets nothing.\<close>

definition new_Task :: "env \<Rightarrow> caller \<Rightarrow> body \<Rightarrow> document" where
  "new_Task e user b =
    (schema_defaults e ++ (map_of b |` set task_fields))
      (''assignedBy'' \<mapsto> JStr (user_id user))"

text \<open>\<^verbatim>\<open>$push: { assignedTasks: task._id }\<close> on the user with the given id.\<close>

definition push_assigned :: "string \<Rightarrow> string \<Rightarrow> db \<Rightarrow> db" where
  "push_assigned uid tid d =
    (case users d uid of
       None \<Rightarrow> d
     | Some u \<Rightarrow> d\<lparr>users := (users d)(uid \<mapsto> u\<lparr>assignedTasks := assignedTasks u @ [tid]\<rparr>)\<rparr>)"

text \<open>The handler behind \<^verbatim>\<open>authorize('admin', 'hr')\<close> and the validation chain. An
  \<^verbatim>\<open>assignedTo\<close> that is no id string cannot be looked up (a cast error). \<open>new_id\<close> is
  the id Mongoose generates for the task, under which it is stored; an id that is taken
  cannot be inserted.\<close>

definition post_task ::
  "env \<Rightarrow> string \<Rightarrow> caller \<Rightarrow> body \<Rightarrow> db \<Rightarrow> document response \<times> db" where
  "post_task e new_id user b d =
    (if \<not> authorize [''admin'', ''hr''] user then (Forbidden, d)
     else if \<not> validate_task e b then (BadRequest, d)
     else
       (case ref_id (map_of b ''assignedTo'') of
          None \<Rightarrow> (ServerError, d)
        | Some assignedTo \<Rightarrow>
           (case users d assignedTo of
              None \<Rightarrow> (NotFound, d)
            | Some _ \<Rightarrow>
               (let task = new_Task e user b in
                if \<not> save_validators e task \<or> tasks d new_id \<noteq> None then (ServerError, d)
                else (Created task,
                      push_assigned assignedTo new_id
                        (d\<lparr>tasks := (tasks d)(new_id \<mapsto> task)\<rparr>))))))"

section \<open>PUT /api/tasks/:id\<close>

definition allowedUpdates :: "bool \<Rightarrow> string list" where
  "allowedUpdates adminOrHR =
    (if adminOrHR
     then [''title'', ''description'', ''priority'', ''assignedTo'', ''dueDate'',
           ''estimatedHours'', ''category'', ''tags'', ''status'', ''progress'',
           ''dependencies'', ''completionReason'']
     else [''status'', ''progress'', ''actualHours'', ''completionReason''])"

text \<open>The \<^verbatim>\<open>Object.keys(req.body).forEach\<close> loop that fills \<^verbatim>\<open>updates\<close>.\<close>

definition collect_updates :: "string list \<Rightarrow> body \<Rightarrow> document" where
  "collect_updates allowed b =
    fold (\<lambda>key updates. if key \<in> set allowed then updates(key := map_of b key) else updates)
      (map fst b) Map.empty"

text \<open>The special handling of a status update; \<open>now\<close> is \<^verbatim>\<open>new Date()\<close>.\<close>

definition special_status :: "int \<Rightarrow> document \<Rightarrow> document" where
  "special_status now updates =
    (if updates ''status'' = Some (JStr ''completed'')
     then updates(''completedAt'' \<mapsto> JDate (Some now), ''progress'' \<mapsto> JNum (Fin 100))
     else updates)"

text \<open>\<^verbatim>\<open>Task.findByIdAndUpdate(id, updates, {new: true, runValidators: true})\<close>: the keys
  of \<open>updates\<close> are set on the stored document, unless a validator of the schema rejects the
  update, which throws (the outer \<open>None\<close>). The result is the new document, \<open>None\<close> for an
  unknown id.\<close>

definition findByIdAndUpdate ::
  "env \<Rightarrow> string \<Rightarrow> document \<Rightarrow> db \<Rightarrow> (document option \<times> db) option" where
  "findByIdAndUpdate e tid updates d =
    (if \<not> update_validators e updates then None
     else case tasks d tid of
       None \<Rightarrow> Some (None, d)
     | Some t \<Rightarrow> Some (Some (t ++ updates), d\<lparr>tasks := (tasks d)(tid \<mapsto> t ++ updates)\<rparr>))"

definition put_task ::
  "env \<Rightarrow> int \<Rightarrow> caller \<Rightarrow> string \<Rightarrow> body \<Rightarrow> db \<Rightarrow> document option response \<times> db" where
  "put_task e now user tid b d =
    (case tasks d tid of
       None \<Rightarrow> (NotFound, d)
     | Some task \<Rightarrow>
        (case ref_id (task ''assignedTo'') of
           None \<Rightarrow> (ServerError, d)
         | Some assignee \<Rightarrow>
            if \<not> isAdminOrHR user \<and> \<not> (assignee = user_id user) then (Forbidden, d)
            else
              (let updates = special_status now
                     (collect_updates (allowedUpdates (isAdminOrHR user)) b)
               in case findByIdAndUpdate e tid updates d of
                    None \<Rightarrow> (ServerError, d)
                  | Some (updatedTask, d') \<Rightarrow> (OK updatedTask, d'))))"

section \<open>POST /api/tasks/:id/comments\<close>

text \<open>\<^verbatim>\<open>task.<field>.push(x); task.save()\<close> for an array field of the document: the push
  throws when the field holds no array, and \<^verbatim>\<open>save\<close> when a validator of the schema
  rejects the document. The answer carries the new array.\<close>

definition push_and_save ::
  "env \<Rightarrow> string \<Rightarrow> document \<Rightarrow> string \<Rightarrow> json \<Rightarrow> db \<Rightarrow> json response \<times> db" where
  "push_and_save e tid task field x d =
    (case task field of
       Some (JArr xs) \<Rightarrow>
        (let task' = task(field \<mapsto> JArr (xs @ [x])) in
         if save_validators e task'
         then (OK (JArr (xs @ [x])), d\<lparr>tasks := (tasks d)(tid \<mapsto> task')\<rparr>)
         else (ServerError, d))
     | _ \<Rightarrow> (ServerError, d))"

text \<open>An object literal in which a value may be \<^verbatim>\<open>undefined\<close>: such a key is left out.\<close>

definition object :: "(string \<times> json option) list \<Rightarrow> json" where
  "object kvs =
    JObj (List.map_filter (\<lambda>(k, v). case v of None \<Rightarrow> None | Some x \<Rightarrow> Some (k, x)) kvs)"

definition post_comment :: "env \<Rightarrow> caller \<Rightarrow> string \<Rightarrow> body \<Rightarrow> db \<Rightarrow> json response \<times> db" where
  "post_comment e user tid b d =
    (if \<not> notEmpty e (map_of b ''comment'') then (BadRequest, d)
     else
       (case tasks d tid of
          None \<Rightarrow> (NotFound, d)
        | Some task \<Rightarrow>
           (case ref_id (task ''assignedTo'') of
              None \<Rightarrow> (ServerError, d)
            | Some assignee \<Rightarrow>
               (case ref_id (task ''assignedBy'') of
                  None \<Rightarrow> (ServerError, d)
                | Some creator \<Rightarrow>
                   if \<not> isAdminOrHR user \<and> \<not> (assignee = user_id user)
                      \<and> \<not> (creator = user_id user)
                   then (Forbidden, d)
                   else push_and_save e tid task ''comments''
                          (object [(''user'', Some (JStr (user_id user))),
                                   (''comment'', map_of b ''comment'')]) d))))"

section \<open>POST /api/tasks/:id/time-tracking\<close>

text \<open>\<^verbatim>\<open>body('description').optional().isString()\<close>\<close>

definition optional_isString :: "json option \<Rightarrow> bool" where
  "optional_isString v = (case v of None \<Rightarrow> True | Some (JStr _) \<Rightarrow> True | Some _ \<Rightarrow> False)"

text \<open>\<^verbatim>\<open>Math.round((end - start) / (1000 * 60))\<close>: \<^verbatim>\<open>NaN\<close> when a date is invalid.\<close>

definition duration_minutes :: "int option \<Rightarrow> int option \<Rightarrow> number" where
  "duration_minutes start end =
    (case (start, end) of
       (Some s, Some t) \<Rightarrow> Fin (of_int (Math_round (of_int (t - s) / (1000 * 60))))
     | _ \<Rightarrow> NaN)"

text \<open>\<^verbatim>\<open>duration <= 0\<close>\<close>

definition not_positive :: "number \<Rightarrow> bool" where
  "not_positive n = (num_less n (Fin 0) \<or> n = Fin 0)"

text \<open>The handler. \<^verbatim>\<open>start.toISOString()\<close> throws on an invalid date, before the
  duration is tested.\<close>

definition post_time_tracking ::
  "env \<Rightarrow> caller \<Rightarrow> string \<Rightarrow> body \<Rightarrow> db \<Rightarrow> json response \<times> db" where
  "post_time_tracking e user tid b d =
    (if \<not> (isISO8601 e (map_of b ''startTime'') \<and> isISO8601 e (map_of b ''endTime'')
            \<and> optional_isString (map_of b ''description''))
     then (BadRequest, d)
     else
       (case tasks d tid of
          None \<Rightarrow> (NotFound, d)
        | Some task \<Rightarrow>
           (case ref_id (task ''assignedTo'') of
              None \<Rightarrow> (ServerError, d)
            | Some assignee \<Rightarrow>
               if assignee \<noteq> user_id user then (Forbidden, d)
               else
                 (let start = newDate e (map_of b ''startTime'');
                      end = newDate e (map_of b ''endTime'');
                      duration = duration_minutes start end
                  in case start of
                       None \<Rightarrow> (ServerError, d)
                     | Some s \<Rightarrow>
                        (let date = (case split CHR ''T'' (toISOString s) of
                                       [] \<Rightarrow> None | x # _ \<Rightarrow> Some (JStr x))
                         in if not_positive duration then (BadRequest, d)
                            else push_and_save e tid task ''timeTracking''
                                   (object [(''startTime'', Some (JDate start)),
                                            (''endTime'', Some (JDate end)),
                                            (''duration'', Some (JNum duration)),
                                            (''description'', map_of b ''description''),
                                            (''date'', date)]) d)))))"

section \<open>DELETE /api/tasks/:id\<close>



section \<open>Observations of the database\<close>

text \<open>The \<^verbatim>\<open>completedAt\<close> field of the stored task with the given id: \<open>None\<close> when there is no
  such task, \<open>Some None\<close> when the task has no such field.\<close>

definition stored_completedAt :: "db \<Rightarrow> string \<Rightarrow> json option option" where
  "stored_completedAt d tid = map_option (\<lambda>task. task ''completedAt'') (tasks d tid)"

section \<open>GET /api/tasks/employee-summary and GET /api/tasks/by-employee\<close>

text \<open>
  The two reports are aggregation pipelines over the task collection, given here as the
  list of its documents in the order the database scans them. The stages are functions
  on lists. Two choices the database leaves open are fixed: \<^verbatim>\<open>$group\<close> lists the groups
  in the order of their first document, and \<^verbatim>\<open>$sort\<close> keeps rows with equal keys in the
  order they had. Strings compare by character code.
\<close>





























section \<open>Example data\<close>

text \<open>
  A small database for the concrete runs: the employees E and F, an hr user H and an
  admin A;
  a pending task assigned to E by H, and a task of E completed at time 1000. The example
  environment accepts every document, knows three timestamps (09:00:00, 09:00:10 and
  09:45:00 on the first day of the epoch) and takes a lone opening parenthesis for a
  pattern that is not well formed.
\<close>

definition id_E :: string where "id_E = ''0000000000000000000000e1''"
definition id_F :: string where "id_F = ''0000000000000000000000e2''"
definition id_H :: string where "id_H = ''0000000000000000000000b1''"
definition id_A :: string where "id_A = ''0000000000000000000000a1''"
definition id_T :: string where "id_T = ''00000000000000000000aaa1''"
definition id_T2 :: string where "id_T2 = ''00000000000000000000aaa2''"
definition id_new :: string where "id_new = ''00000000000000000000aaa3''"

definition employee_E :: caller where
  "employee_E = \<lparr>user_id = id_E, user_role = ''employee''\<rparr>"

definition employee_F :: caller where
  "employee_F = \<lparr>user_id = id_F, user_role = ''employee''\<rparr>"

definition hr_H :: caller where
  "hr_H = \<lparr>user_id = id_H, user_role = ''hr''\<rparr>"


definition example_times :: "(json \<times> int) list" where
  "example_times =
    [(JStr ''1970-01-01T09:00:00Z'', 32400000),
     (JStr ''1970-01-01T09:00:10Z'', 32410000),
     (JStr ''1970-01-01T09:45:00Z'', 35100000)]"

definition example_env :: env where
  "example_env =
    \<lparr>notEmpty = (\<lambda>v. case v of Some (JStr s) \<Rightarrow> s \<noteq> [] | _ \<Rightarrow> False),
     isMongoId = (\<lambda>v. case v of Some (JStr s) \<Rightarrow> length s = 24 \<and> list_all (is_digit 16) s
                      | _ \<Rightarrow> False),
     isISO8601 = (\<lambda>v. case v of None \<Rightarrow> False | Some x \<Rightarrow> map_of example_times x \<noteq> None),
     isIn = (\<lambda>vs v. case v of Some (JStr s) \<Rightarrow> s \<in> set vs | _ \<Rightarrow> False),
     newDate = (\<lambda>v. case v of None \<Rightarrow> None | Some x \<Rightarrow> map_of example_times x),
     RegExp_valid = (\<lambda>s. s \<noteq> ''(''),
     matches = (\<lambda>q t. True),
     update_validators = (\<lambda>u. True),
     save_validators = (\<lambda>t. True),
     schema_defaults = [''status'' \<mapsto> JStr ''pending'', ''progress'' \<mapsto> JNum (Fin 0),
                        ''comments'' \<mapsto> JArr [], ''timeTracking'' \<mapsto> JArr []]\<rparr>"

definition task_T :: document where
  "task_T = [''title'' \<mapsto> JStr ''Report'', ''assignedTo'' \<mapsto> JStr id_E,
             ''assignedBy'' \<mapsto> JStr id_H, ''status'' \<mapsto> JStr ''pending'',
             ''priority'' \<mapsto> JStr ''low'', ''progress'' \<mapsto> JNum (Fin 0),
             ''comments'' \<mapsto> JArr [], ''timeTracking'' \<mapsto> JArr []]"

definition task_T2 :: document where
  "task_T2 = [''title'' \<mapsto> JStr ''Review'', ''assignedTo'' \<mapsto> JStr id_E,
              ''assignedBy'' \<mapsto> JStr id_H, ''status'' \<mapsto> JStr ''completed'',
              ''priority'' \<mapsto> JStr ''high'', ''progress'' \<mapsto> JNum (Fin 100),
              ''completedAt'' \<mapsto> JDate (Some 1000),
              ''comments'' \<mapsto> JArr [], ''timeTracking'' \<mapsto> JArr []]"

definition example_users :: "string \<rightharpoonup> user_doc" where
  "example_users =
    [id_E \<mapsto> \<lparr>user_name = ''Erin'', user_email = ''erin@example.org'',
               user_doc_role = ''employee'', user_department = ''QA'',
               assignedTasks = [id_T, id_T2]\<rparr>,
     id_F \<mapsto> \<lparr>user_name = ''Finn'', user_email = ''finn@example.org'',
               user_doc_role = ''employee'', user_department = ''QA'', assignedTasks = []\<rparr>,
     id_H \<mapsto> \<lparr>user_name = ''Hana'', user_email = ''hana@example.org'',
               user_doc_role = ''hr'', user_department = ''HR'', assignedTasks = []\<rparr>,
     id_A \<mapsto> \<lparr>user_name = ''Ada'', user_email = ''ada@example.org'',
               user_doc_role = ''admin'', user_department = ''IT'', assignedTasks = []\<rparr>]"

definition example_db :: db where
  "example_db = \<lparr>tasks = [id_T \<mapsto> task_T, id_T2 \<mapsto> task_T2], users = example_users\<rparr>"

text \<open>The update of the scenario: E completes T, with a progress of 40 and a priority.\<close>

definition body_complete :: body where
  "body_complete =
    [(''status'', JStr ''completed''), (''progress'', JNum (Fin 40)),
     (''priority'', JStr ''urgent'')]"

definition body_reopen :: body where
  "body_reopen = [(''status'', JStr ''in-progress''), (''progress'', JNum (Fin 60))]"

text \<open>Two time entries of E: from 09:00:00 to 09:45:00, and from 09:00:00 to 09:00:10.\<close>

definition body_45min :: body where
  "body_45min =
    [(''startTime'', JStr ''1970-01-01T09:00:00Z''), (''endTime'', JStr ''1970-01-01T09:45:00Z'')]"

definition body_10s :: body where
  "body_10s =
    [(''startTime'', JStr ''1970-01-01T09:00:00Z''), (''endTime'', JStr ''1970-01-01T09:00:10Z'')]"

text \<open>The list request with no parameter.\<close>

definition no_query :: list_query where
  "no_query =
    \<lparr>q_assignedTo = None, q_status = None, q_priority = None, q_category = None,
     q_search = None, q_page = None, q_limit = None, q_sortBy = None, q_sortOrder = None\<rparr>"

text \<open>A creation request of H for E, and the same request with a creator of the
  client's choice.\<close>

definition body_create :: body where
  "body_create =
    [(''title'', JStr ''Audit''), (''description'', JStr ''Yearly audit''),
     (''assignedTo'', JStr id_E), (''dueDate'', JStr ''1970-01-01T09:45:00Z''),
     (''priority'', JStr ''high''), (''category'', JStr ''research'')]"

definition body_create_forged :: body where
  "body_create_forged = (''assignedBy'', JStr id_A) # body_create"





section \<open>The update of a task\<close>

lemma collect_updates_fold:
  "fold (\<lambda>key updates. if key \<in> set allowed then updates(key := map_of b key) else updates) ks m
     = (\<lambda>k. if k \<in> set ks \<and> k \<in> set allowed then map_of b k else m k)"
  by (induction ks arbitrary: m) (auto simp: fun_eq_iff)

lemma collect_updates_restrict:
  "collect_updates allowed b = map_of b |` set allowed"
proof (rule ext)
  fix k
  have "k \<notin> fst ` set b \<Longrightarrow> map_of b k = None"
    by (simp add: map_of_eq_None_iff)
  then show "collect_updates allowed b k = (map_of b |` set allowed) k"
    by (auto simp: collect_updates_def collect_updates_fold restrict_map_def)
qed

lemma put_task_denied:
  assumes "tasks d tid = Some task" "ref_id (task ''assignedTo'') = Some assignee"
    "\<not> isAdminOrHR user" "assignee \<noteq> user_id user"
  shows "put_task e now user tid b d = (Forbidden, d)"
  using assms by (simp add: put_task_def)

lemma put_task_applied:
  assumes "tasks d tid = Some task" "ref_id (task ''assignedTo'') = Some assignee"
    "isAdminOrHR user \<or> assignee = user_id user"
  shows "put_task e now user tid b d =
    (if update_validators e (special_status now (map_of b |` set (allowedUpdates (isAdminOrHR user))))
     then (OK (Some (task ++ special_status now (map_of b |` set (allowedUpdates (isAdminOrHR user))))),
           d\<lparr>tasks := (tasks d)(tid \<mapsto>
              task ++ special_status now (map_of b |` set (allowedUpdates (isAdminOrHR user))))\<rparr>)
     else (ServerError, d))"
  using assms
  by (auto simp: put_task_def findByIdAndUpdate_def collect_updates_restrict Let_def)

lemma allowedUpdates_set:
  "set (allowedUpdates (isAdminOrHR user)) =
    (if user_role user = ''admin'' \<or> user_role user = ''hr''
     then {''title'', ''description'', ''priority'', ''assignedTo'', ''dueDate'',
           ''estimatedHours'', ''category'', ''tags'', ''status'', ''progress'',
           ''dependencies'', ''completionReason''}
     else {''status'', ''progress'', ''actualHours'', ''completionReason''})"
  by (simp add: allowedUpdates_def isAdminOrHR_def)

lemma put_task_agree:
  assumes "map_of b' |` set (allowedUpdates (isAdminOrHR user)) =
           map_of b |` set (allowedUpdates (isAdminOrHR user))"
  shows "put_task e now user tid b' d = put_task e now user tid b d"
proof -
  have same: "collect_updates (allowedUpdates (isAdminOrHR user)) b' =
        collect_updates (allowedUpdates (isAdminOrHR user)) b"
    using assms by (simp add: collect_updates_restrict)
  show ?thesis
    unfolding put_task_def same by (rule refl)
qed

lemma completedAt_not_allowed: "''completedAt'' \<notin> set (allowedUpdates x)"
  by (simp add: allowedUpdates_def)

lemma status_allowed: "''status'' \<in> set (allowedUpdates x)"
  by (simp add: allowedUpdates_def)

lemma progress_allowed: "''progress'' \<in> set (allowedUpdates x)"
  by (simp add: allowedUpdates_def)

subsection \<open>Facts of the example data\<close>

lemma ex_task_T: "tasks example_db id_T = Some task_T"
  by (simp add: example_db_def id_T_def id_T2_def)

lemma ex_task_T2: "tasks example_db id_T2 = Some task_T2"
  by (simp add: example_db_def id_T_def id_T2_def)

lemma ex_assignee_T: "ref_id (task_T ''assignedTo'') = Some id_E"
  by (simp add: task_T_def)

lemma ex_assignee_T2: "ref_id (task_T2 ''assignedTo'') = Some id_E"
  by (simp add: task_T2_def)

lemma ex_E_not_admin: "\<not> isAdminOrHR employee_E"
  by (simp add: isAdminOrHR_def employee_E_def)

lemma ex_E_id: "user_id employee_E = id_E"
  by (simp add: employee_E_def)

lemma ex_accepts: "update_validators example_env u"
  by (simp add: example_env_def)

lemma ex_applied_complete:
  "collect_updates (allowedUpdates (isAdminOrHR employee_E)) body_complete =
     [''status'' \<mapsto> JStr ''completed'', ''progress'' \<mapsto> JNum (Fin 40)]"
  by (rule ext) (simp add: collect_updates_restrict ex_E_not_admin allowedUpdates_def
      body_complete_def restrict_map_def)

lemma ex_F: "\<not> isAdminOrHR employee_F \<and> id_E \<noteq> user_id employee_F"
  by (simp add: isAdminOrHR_def employee_F_def id_E_def id_F_def)

lemma ex_dom_complete:
  "dom (collect_updates (allowedUpdates (isAdminOrHR employee_E)) body_complete) =
    {''status'', ''progress''}"
  by (auto simp: collect_updates_restrict ex_E_not_admin allowedUpdates_def body_complete_def
      restrict_map_def dom_def split: if_splits)

subsection \<open>Field authorization and the completion of a task\<close>

text \<open>
  Claim C3. An update request on an existing task whose caller is neither admin nor hr nor
  the task's assignee is answered with access denied and the database is unchanged.
  Otherwise the fields applied are exactly the keys that are both in the request body and
  in the allow-set of the caller's role (the twelve fields of admin and hr, or the four of
  an assignee who is neither): when the schema accepts the update, the stored task is the
  old one overridden by these keys, after the special handling of a completed status. Any
  other key of the body is dropped without an error: two bodies that agree on the allowed
  keys get the same answer and the same database.
\<close>

theorem put_task_field_authorization:
  assumes "tasks d tid = Some task" and "ref_id (task ''assignedTo'') = Some assignee"
  shows "(\<not> isAdminOrHR user \<and> assignee \<noteq> user_id user \<longrightarrow>
            put_task e now user tid b d = (Forbidden, d)) \<and>
         (isAdminOrHR user \<or> assignee = user_id user \<longrightarrow>
            set (allowedUpdates (isAdminOrHR user)) =
              (if user_role user = ''admin'' \<or> user_role user = ''hr''
               then {''title'', ''description'', ''priority'', ''assignedTo'', ''dueDate'',
                     ''estimatedHours'', ''category'', ''tags'', ''status'', ''progress'',
                     ''dependencies'', ''completionReason''}
               else {''status'', ''progress'', ''actualHours'', ''completionReason''}) \<and>
            collect_updates (allowedUpdates (isAdminOrHR user)) b =
              map_of b |` (fst ` set b \<inter> set (allowedUpdates (isAdminOrHR user))) \<and>
            (update_validators e
                (special_status now (collect_updates (allowedUpdates (isAdminOrHR user)) b)) \<longrightarrow>
              put_task e now user tid b d =
                (OK (Some (task ++
                    special_status now (collect_updates (allowedUpdates (isAdminOrHR user)) b))),
                 d\<lparr>tasks := (tasks d)(tid \<mapsto> task ++
                    special_status now (collect_updates (allowedUpdates (isAdminOrHR user)) b))\<rparr>)) \<and>
            (\<forall>b'. map_of b' |` set (allowedUpdates (isAdminOrHR user)) =
                     map_of b |` set (allowedUpdates (isAdminOrHR user)) \<longrightarrow>
                  put_task e now user tid b' d = put_task e now user tid b d))"
proof (intro conjI impI allI)
  assume "\<not> isAdminOrHR user \<and> assignee \<noteq> user_id user"
  with assms show "put_task e now user tid b d = (Forbidden, d)"
    by (simp add: put_task_denied)
next
  show "set (allowedUpdates (isAdminOrHR user)) =
      (if user_role user = ''admin'' \<or> user_role user = ''hr''
       then {''title'', ''description'', ''priority'', ''assignedTo'', ''dueDate'',
             ''estimatedHours'', ''category'', ''tags'', ''status'', ''progress'',
             ''dependencies'', ''completionReason''}
       else {''status'', ''progress'', ''actualHours'', ''completionReason''})"
    by (rule allowedUpdates_set)
next
  have "map_of b k = None" if "k \<notin> fst ` set b" for k
    using that by (simp add: map_of_eq_None_iff)
  then show "collect_updates (allowedUpdates (isAdminOrHR user)) b =
      map_of b |` (fst ` set b \<inter> set (allowedUpdates (isAdminOrHR user)))"
    by (auto simp: collect_updates_restrict restrict_map_def fun_eq_iff)
next
  assume "isAdminOrHR user \<or> assignee = user_id user"
    and "update_validators e
          (special_status now (collect_updates (allowedUpdates (isAdminOrHR user)) b))"
  with assms show "put_task e now user tid b d =
      (OK (Some (task ++
          special_status now (collect_updates (allowedUpdates (isAdminOrHR user)) b))),
       d\<lparr>tasks := (tasks d)(tid \<mapsto> task ++
          special_status now (collect_updates (allowedUpdates (isAdminOrHR user)) b))\<rparr>)"
    by (simp add: put_task_applied collect_updates_restrict)
next
  fix b'
  assume "map_of b' |` set (allowedUpdates (isAdminOrHR user)) =
          map_of b |` set (allowedUpdates (isAdminOrHR user))"
  then show "put_task e now user tid b' d = put_task e now user tid b d"
    by (rule put_task_agree)
qed

theorem put_task_field_authorization_witness:
  "tasks example_db id_T = Some task_T \<and> ref_id (task_T ''assignedTo'') = Some id_E \<and>
   put_task example_env 5000 employee_F id_T body_complete example_db = (Forbidden, example_db) \<and>
   (isAdminOrHR employee_E \<or> id_E = user_id employee_E) \<and>
   dom (collect_updates (allowedUpdates (isAdminOrHR employee_E)) body_complete) =
     {''status'', ''progress''} \<and>
   (\<exists>t'. put_task example_env 5000 employee_E id_T body_complete example_db =
           (OK (Some t'), example_db\<lparr>tasks := (tasks example_db)(id_T \<mapsto> t')\<rparr>) \<and>
         t' ''status'' = Some (JStr ''completed'') \<and> t' ''priority'' = Some (JStr ''low''))"
proof -
  note inst = put_task_field_authorization [OF ex_task_T ex_assignee_T]
  have denied: "put_task example_env 5000 employee_F id_T body_complete example_db =
      (Forbidden, example_db)"
    using inst [of employee_F example_env 5000 body_complete] ex_F by blast
  have auth: "isAdminOrHR employee_E \<or> id_E = user_id employee_E"
    by (simp add: ex_E_id)
  let ?U = "special_status 5000
      (collect_updates (allowedUpdates (isAdminOrHR employee_E)) body_complete)"
  have run: "put_task example_env 5000 employee_E id_T body_complete example_db =
      (OK (Some (task_T ++ ?U)), example_db\<lparr>tasks := (tasks example_db)(id_T \<mapsto> task_T ++ ?U)\<rparr>)"
    using inst [of employee_E example_env 5000 body_complete] auth ex_accepts by blast
  have "(task_T ++ ?U) ''status'' = Some (JStr ''completed'')"
    and "(task_T ++ ?U) ''priority'' = Some (JStr ''low'')"
    by (simp_all add: ex_applied_complete special_status_def task_T_def map_add_def)
  with run have "\<exists>t'. put_task example_env 5000 employee_E id_T body_complete example_db =
           (OK (Some t'), example_db\<lparr>tasks := (tasks example_db)(id_T \<mapsto> t')\<rparr>) \<and>
         t' ''status'' = Some (JStr ''completed'') \<and> t' ''priority'' = Some (JStr ''low'')"
    by (intro exI [where x = "task_T ++ ?U"]) simp
  with denied auth ex_task_T ex_assignee_T ex_dom_complete show ?thesis
    by simp
qed

text \<open>
  Claim C2. An update of an existing task whose applied fields set the status to
  \<^verbatim>\<open>completed\<close> stores the task with a progress of 100 and with \<^verbatim>\<open>completedAt\<close> set to the
  time of the update, whatever progress the body supplied. The update is one the caller
  may make and the schema accepts.
\<close>

theorem put_task_completed:
  assumes "tasks d tid = Some task" and "ref_id (task ''assignedTo'') = Some assignee"
    and "isAdminOrHR user \<or> assignee = user_id user"
    and "collect_updates (allowedUpdates (isAdminOrHR user)) b ''status'' = Some (JStr ''completed'')"
    and "update_validators e
          (special_status now (collect_updates (allowedUpdates (isAdminOrHR user)) b))"
  shows "\<exists>t'. put_task e now user tid b d =
                (OK (Some t'), d\<lparr>tasks := (tasks d)(tid \<mapsto> t')\<rparr>) \<and>
              t' ''status'' = Some (JStr ''completed'') \<and>
              t' ''progress'' = Some (JNum (Fin 100)) \<and>
              t' ''completedAt'' = Some (JDate (Some now))"
proof -
  let ?U = "special_status now (collect_updates (allowedUpdates (isAdminOrHR user)) b)"
  have "put_task e now user tid b d =
      (OK (Some (task ++ ?U)), d\<lparr>tasks := (tasks d)(tid \<mapsto> task ++ ?U)\<rparr>)"
    using assms by (simp add: put_task_applied collect_updates_restrict)
  moreover have "(task ++ ?U) ''status'' = Some (JStr ''completed'')"
    and "(task ++ ?U) ''progress'' = Some (JNum (Fin 100))"
    and "(task ++ ?U) ''completedAt'' = Some (JDate (Some now))"
    using assms(4) by (simp_all add: special_status_def map_add_def)
  ultimately show ?thesis
    by (intro exI [where x = "task ++ ?U"]) simp
qed

theorem put_task_completed_witness:
  "map_of body_complete ''progress'' = Some (JNum (Fin 40)) \<and>
   collect_updates (allowedUpdates (isAdminOrHR employee_E)) body_complete ''status'' =
     Some (JStr ''completed'') \<and>
   (\<exists>t'. put_task example_env 5000 employee_E id_T body_complete example_db =
           (OK (Some t'), example_db\<lparr>tasks := (tasks example_db)(id_T \<mapsto> t')\<rparr>) \<and>
         t' ''status'' = Some (JStr ''completed'') \<and>
         t' ''progress'' = Some (JNum (Fin 100)) \<and>
         t' ''completedAt'' = Some (JDate (Some 5000)))"
proof -
  have auth: "isAdminOrHR employee_E \<or> id_E = user_id employee_E"
    by (simp add: ex_E_id)
  have st: "collect_updates (allowedUpdates (isAdminOrHR employee_E)) body_complete ''status'' =
     Some (JStr ''completed'')"
    by (simp add: ex_applied_complete)
  have "map_of body_complete ''progress'' = Some (JNum (Fin 40))"
    by (simp add: body_complete_def)
  with st put_task_completed [OF ex_task_T ex_assignee_T auth st ex_accepts, of 5000]
  show ?thesis by blast
qed

text \<open>
  Claim C10. An update of an existing task whose applied fields do not set the status to
  \<^verbatim>\<open>completed\<close>, whatever the status of the task was, leaves \<^verbatim>\<open>completedAt\<close> of the stored
  task as it was, and does not force the progress: the progress is the old one or the one
  the body supplied. When the update is made, the stored task is the old one overridden by
  the allowed keys of the body and by nothing else.
\<close>

theorem put_task_keeps_completedAt:
  assumes "tasks d tid = Some task"
    and "collect_updates (allowedUpdates (isAdminOrHR user)) b ''status'' \<noteq> Some (JStr ''completed'')"
  shows "\<exists>t'. tasks (snd (put_task e now user tid b d)) tid = Some t' \<and>
              t' ''completedAt'' = task ''completedAt'' \<and>
              (t' ''progress'' = task ''progress'' \<or>
               t' ''progress'' = map_of b ''progress'' \<and> map_of b ''progress'' \<noteq> None) \<and>
              (\<forall>t''. fst (put_task e now user tid b d) = OK (Some t'') \<longrightarrow>
                 t'' = task ++ (map_of b |` set (allowedUpdates (isAdminOrHR user))) \<and> t' = t'')"
proof -
  let ?A = "set (allowedUpdates (isAdminOrHR user))"
  let ?U = "map_of b |` ?A"
  have same: "special_status now (collect_updates (allowedUpdates (isAdminOrHR user)) b) = ?U"
    using assms(2) by (simp add: special_status_def collect_updates_restrict)
  have cases: "put_task e now user tid b d = (ServerError, d) \<or>
               put_task e now user tid b d = (Forbidden, d) \<or>
               put_task e now user tid b d =
                 (OK (Some (task ++ ?U)), d\<lparr>tasks := (tasks d)(tid \<mapsto> task ++ ?U)\<rparr>)"
    using assms(1) same
    by (auto simp: put_task_def findByIdAndUpdate_def Let_def split: option.splits)
  have c: "(task ++ ?U) ''completedAt'' = task ''completedAt''"
    by (simp add: map_add_def restrict_map_def completedAt_not_allowed)
  have p: "(task ++ ?U) ''progress'' = task ''progress'' \<or>
           (task ++ ?U) ''progress'' = map_of b ''progress'' \<and> map_of b ''progress'' \<noteq> None"
    by (auto simp: map_add_def restrict_map_def progress_allowed split: option.splits)
  from cases show ?thesis
  proof (elim disjE)
    assume "put_task e now user tid b d = (ServerError, d)"
    with assms(1) show ?thesis by simp
  next
    assume "put_task e now user tid b d = (Forbidden, d)"
    with assms(1) show ?thesis by simp
  next
    assume "put_task e now user tid b d =
        (OK (Some (task ++ ?U)), d\<lparr>tasks := (tasks d)(tid \<mapsto> task ++ ?U)\<rparr>)"
    with c p show ?thesis by simp
  qed
qed

lemma ex_applied_reopen:
  "collect_updates (allowedUpdates (isAdminOrHR employee_E)) body_reopen =
     [''status'' \<mapsto> JStr ''in-progress'', ''progress'' \<mapsto> JNum (Fin 60)]"
  by (rule ext) (simp add: collect_updates_restrict ex_E_not_admin allowedUpdates_def
      body_reopen_def restrict_map_def)

theorem put_task_keeps_completedAt_witness:
  "tasks example_db id_T2 = Some task_T2 \<and>
   task_T2 ''status'' = Some (JStr ''completed'') \<and>
   collect_updates (allowedUpdates (isAdminOrHR employee_E)) body_reopen ''status'' =
     Some (JStr ''in-progress'') \<and>
   (\<exists>t'. tasks (snd (put_task example_env 5000 employee_E id_T2 body_reopen example_db)) id_T2
           = Some t' \<and>
         t' ''completedAt'' = Some (JDate (Some 1000)) \<and>
         t' ''progress'' = Some (JNum (Fin 60)) \<and>
         t' ''status'' = Some (JStr ''in-progress''))"
proof -
  have st: "collect_updates (allowedUpdates (isAdminOrHR employee_E)) body_reopen ''status'' =
     Some (JStr ''in-progress'')"
    by (simp add: ex_applied_reopen)
  then have ne: "collect_updates (allowedUpdates (isAdminOrHR employee_E)) body_reopen ''status''
      \<noteq> Some (JStr ''completed'')"
    by simp
  have auth: "isAdminOrHR employee_E \<or> id_E = user_id employee_E"
    by (simp add: ex_E_id)
  have run: "fst (put_task example_env 5000 employee_E id_T2 body_reopen example_db) =
      OK (Some (task_T2 ++ (map_of body_reopen |` set (allowedUpdates (isAdminOrHR employee_E)))))"
    using ex_task_T2 ex_assignee_T2 auth ne
    by (simp add: put_task_applied ex_accepts special_status_def collect_updates_restrict)
  from put_task_keeps_completedAt [OF ex_task_T2 ne, of example_env 5000]
  obtain t' where
    t': "tasks (snd (put_task example_env 5000 employee_E id_T2 body_reopen example_db)) id_T2
          = Some t'"
      "t' ''completedAt'' = task_T2 ''completedAt''"
      "\<forall>t''. fst (put_task example_env 5000 employee_E id_T2 body_reopen example_db)
              = OK (Some t'') \<longrightarrow>
           t'' = task_T2 ++ (map_of body_reopen |` set (allowedUpdates (isAdminOrHR employee_E)))
           \<and> t' = t''"
    by blast
  from t'(3) run
  have eq: "t' = task_T2 ++ (map_of body_reopen |` set (allowedUpdates (isAdminOrHR employee_E)))"
    by simp
  have "t' ''progress'' = Some (JNum (Fin 60))" and "t' ''status'' = Some (JStr ''in-progress'')"
    unfolding eq
    by (simp_all add: body_reopen_def allowedUpdates_def ex_E_not_admin map_add_def
        restrict_map_def)
  moreover have "t' ''completedAt'' = Some (JDate (Some 1000))"
    using t'(2) by (simp add: task_T2_def)
  moreover have "task_T2 ''status'' = Some (JStr ''completed'')"
    by (simp add: task_T2_def)
  ultimately show ?thesis
    using ex_task_T2 st t'(1) by simp
qed

section \<open>Time tracking\<close>

lemma Math_round_minutes: "Math_round (of_int x / (1000 * 60)) = (x + 30000) div 60000"
proof -
  have "(of_int x / (1000 * 60) + 1 / 2 :: rat) = of_int (x + 30000) / of_int 60000"
    by (simp add: add_divide_distrib)
  then have "Math_round (of_int x / (1000 * 60)) = \<lfloor>(of_int (x + 30000) / of_int 60000 :: rat)\<rfloor>"
    by (simp only: Math_round_def)
  also have "\<dots> = (x + 30000) div 60000"
    by (rule floor_divide_of_int_eq)
  finally show ?thesis .
qed

lemma minutes_positive: "0 < (x + 30000) div 60000 \<longleftrightarrow> 30000 \<le> x"
  for x :: int
  by (simp add: pos_imp_zdiv_pos_iff)

lemma duration_minutes_Some:
  "duration_minutes (Some s) (Some t) = Fin (of_int ((t - s + 30000) div 60000))"
  by (simp only: duration_minutes_def prod.case option.case Math_round_minutes)

lemma not_positive_Fin: "not_positive (Fin (of_int m)) \<longleftrightarrow> \<not> 0 < m"
  by (auto simp: not_positive_def)

lemma duration_not_positive:
  "not_positive (duration_minutes (Some s) (Some t)) \<longleftrightarrow> t - s < 30000"
  using minutes_positive [of "t - s"]
  by (simp only: duration_minutes_Some not_positive_Fin) linarith

lemma split_prefix:
  "sep \<notin> set pre \<Longrightarrow> split sep (pre @ sep # rest) = pre # split sep rest"
  by (induction pre) (auto split: list.splits)

lemma digit_char: "k < 10 \<Longrightarrow> is_digit 10 (char_of (48 + k))"
  for k :: nat
  by (simp add: is_digit_def digit_value_def)

lemma show_nat_digits: "c \<in> set (show_nat n) \<Longrightarrow> is_digit 10 c"
proof (induction n rule: show_nat.induct)
  case (1 n)
  show ?case
  proof (cases "n < 10")
    case True
    then have "show_nat n = [char_of (48 + n)]"
      by (subst show_nat.simps) simp
    with "1.prems" True digit_char [of n] show ?thesis by simp
  next
    case False
    then have "show_nat n = show_nat (n div 10) @ [char_of (48 + n mod 10)]"
      by (subst show_nat.simps) simp
    with "1.prems" have "c \<in> set (show_nat (n div 10)) \<or> c = char_of (48 + n mod 10)"
      by auto
    then show ?thesis
    proof
      assume "c \<in> set (show_nat (n div 10))"
      with False "1.IH" show ?thesis by simp
    next
      assume "c = char_of (48 + n mod 10)"
      with digit_char [of "n mod 10"] show ?thesis by simp
    qed
  qed
qed

lemma is_digit_zero: "is_digit 10 CHR ''0''"
  by (simp add: is_digit_def digit_value_def)

lemma pad_digits: "c \<in> set (pad n (show_nat k)) \<Longrightarrow> is_digit 10 c"
  using is_digit_zero by (auto simp: pad_def dest: show_nat_digits)

lemma not_digit_T: "\<not> is_digit 10 CHR ''T''"
  by (simp add: is_digit_def digit_value_def)

lemma date_string_no_T: "CHR ''T'' \<notin> set (date_string ymd)"
proof
  assume "CHR ''T'' \<in> set (date_string ymd)"
  then have "is_digit 10 CHR ''T''"
    by (auto simp: date_string_def split: prod.splits if_splits dest: pad_digits)
  then show False by (simp add: not_digit_T)
qed

lemma date_of_toISOString:
  "split CHR ''T'' (toISOString s) =
     date_string (civil_from_days (s div 86400000)) #
     split CHR ''T'' (time_string (s mod 86400000) @ ''Z'')"
  by (simp add: toISOString_def split_prefix date_string_no_T)

text \<open>The calendar date of a day number is a date, and the date of that day.\<close>

lemma div_lower: "0 < c \<Longrightarrow> c * (x div c) \<le> x" for x c :: int
  by (metis (no_types) mult.commute div_mult_mod_eq le_add_same_cancel1 pos_mod_sign)

lemma div_upper: "0 < c \<Longrightarrow> x < c * (x div c) + c" for x c :: int
  by (metis (no_types) add.commute add_less_cancel_left mult.commute div_mult_mod_eq pos_mod_bound)


lemma civil_from_days_inverse:
  "days_from_civil (civil_from_days z0) = z0 \<and>
   (case civil_from_days z0 of (y, m, d) \<Rightarrow> 1 \<le> m \<and> m \<le> 12 \<and> 1 \<le> d \<and> d \<le> 31)"
proof -
  define z where "z = z0 + 719468"
  define era where "era = z div 146097"
  define doe where "doe = z mod 146097"
  define c where "c = min (doe div 36524) 3"
  define r where "r = doe - 36524 * c"
  define q where "q = min (r div 1461) 24"
  define s where "s = r - 1461 * q"
  define yy where "yy = min (s div 365) 3"
  define doy where "doy = s - 365 * yy"
  define yoe where "yoe = 100 * c + 4 * q + yy"
  define mp where "mp = (5 * doy + 2) div 153"
  define d where "d = doy - (153 * mp + 2) div 5 + 1"
  define m where "m = (if mp < 10 then mp + 3 else mp - 9)"
  define y where "y = yoe + era * 400 + (if m \<le> 2 then 1 else 0)"
  have civil: "civil_from_days z0 = (y, m, d)"
    unfolding civil_from_days_def Let_def
    by (simp only: z_def [symmetric] era_def [symmetric] doe_def [symmetric] c_def [symmetric]
        r_def [symmetric] q_def [symmetric] s_def [symmetric] yy_def [symmetric]
        doy_def [symmetric] yoe_def [symmetric] mp_def [symmetric] d_def [symmetric]
        m_def [symmetric] y_def [symmetric])
  have z: "z = era * 146097 + doe"
    by (simp add: era_def doe_def)
  have doe: "0 \<le> doe" "doe < 146097"
    by (simp_all add: doe_def)
  have c: "0 \<le> c" "c \<le> 3"
    using doe by (simp_all add: c_def pos_imp_zdiv_nonneg_iff)
  have r: "0 \<le> r" "r \<le> 36524"
    using doe div_lower [of 36524 doe] div_upper [of 36524 doe]
    by (auto simp: r_def c_def min_def)
  have q: "0 \<le> q" "q \<le> 24"
    using r by (simp_all add: q_def pos_imp_zdiv_nonneg_iff)
  have s: "0 \<le> s" "s \<le> 1460"
    using r div_lower [of 1461 r] div_upper [of 1461 r]
    by (auto simp: s_def q_def min_def)
  have yy: "0 \<le> yy" "yy \<le> 3"
    using s by (simp_all add: yy_def pos_imp_zdiv_nonneg_iff)
  have doy: "0 \<le> doy" "doy \<le> 365"
    using s div_lower [of 365 s] div_upper [of 365 s]
    by (auto simp: doy_def yy_def min_def)
  have yoe: "0 \<le> yoe" "yoe < 400"
    using c q yy by (simp_all add: yoe_def)
  have mp: "0 \<le> mp" "mp \<le> 11"
    using doy div_lower [of 153 "5 * doy + 2"] div_upper [of 153 "5 * doy + 2"]
    by (auto simp: mp_def)
  have m: "(if m > 2 then m - 3 else m + 9) = mp"
    using mp by (auto simp: m_def)
  have y': "(if m \<le> 2 then y - 1 else y) = yoe + era * 400"
    by (simp add: y_def)
  have era': "(yoe + era * 400) div 400 = era"
    using yoe by (simp add: div_pos_pos_trivial)
  have yoe': "(yoe + era * 400) mod 400 = yoe"
    using yoe by (simp add: mod_pos_pos_trivial)
  have doy': "(153 * mp + 2) div 5 + d - 1 = doy"
    by (simp add: d_def)
  have "yoe = yy + (25 * c + q) * 4"
    by (simp add: yoe_def)
  then have y4: "yoe div 4 = 25 * c + q"
    using yy by (simp add: div_pos_pos_trivial)
  have "yoe = (4 * q + yy) + c * 100"
    by (simp add: yoe_def)
  then have y100: "yoe div 100 = c"
    using yy q by (simp add: div_pos_pos_trivial)
  have doe': "yoe * 365 + yoe div 4 - yoe div 100 + doy = doe"
    unfolding y4 y100 by (simp add: yoe_def doy_def s_def r_def)
  have inverse: "days_from_civil (civil_from_days z0) = z0"
    unfolding civil days_from_civil_def Let_def prod.case y' m era' yoe' doy' doe'
    using z z_def by simp
  have month: "1 \<le> m" "m \<le> 12"
    using mp by (auto simp: m_def)
  have day: "1 \<le> d" "d \<le> 31"
    using div_lower [of 153 "5 * doy + 2"] div_upper [of 153 "5 * doy + 2"]
      div_lower [of 5 "153 * mp + 2"] div_upper [of 5 "153 * mp + 2"]
    by (auto simp: d_def mp_def)
  from inverse month day show ?thesis
    by (simp add: civil)
qed


lemma push_and_save_array:
  assumes "task field = Some (JArr xs)"
  shows "push_and_save e tid task field x d =
    (if save_validators e (task(field \<mapsto> JArr (xs @ [x])))
     then (OK (JArr (xs @ [x])), d\<lparr>tasks := (tasks d)(tid \<mapsto> task(field \<mapsto> JArr (xs @ [x])))\<rparr>)
     else (ServerError, d))"
  using assms by (simp add: push_and_save_def)

lemma post_time_tracking_run:
  assumes valid: "isISO8601 e (map_of b ''startTime'')" "isISO8601 e (map_of b ''endTime'')"
      "optional_isString (map_of b ''description'')"
    and task: "tasks d tid = Some task" "ref_id (task ''assignedTo'') = Some (user_id user)"
    and dates: "newDate e (map_of b ''startTime'') = Some s"
      "newDate e (map_of b ''endTime'') = Some t"
  shows "post_time_tracking e user tid b d =
    (if t - s < 30000 then (BadRequest, d)
     else push_and_save e tid task ''timeTracking''
            (object [(''startTime'', Some (JDate (Some s))),
                     (''endTime'', Some (JDate (Some t))),
                     (''duration'', Some (JNum (Fin (of_int ((t - s + 30000) div 60000))))),
                     (''description'', map_of b ''description''),
                     (''date'', Some (JStr (date_string (civil_from_days (s div 86400000)))))]) d)"
proof -
  have np: "not_positive (duration_minutes (Some s) (Some t)) \<longleftrightarrow> t - s < 30000"
    by (rule duration_not_positive)
  show ?thesis
    unfolding post_time_tracking_def
    using valid task dates np
    by (simp add: Let_def date_of_toISOString duration_minutes_Some)
qed


text \<open>
  Claim C5, as amended. A time-tracking request of the task's assignee that passes the
  validation chain, with a start and an end that are valid dates, is rejected as a
  validation failure, the database unchanged, exactly when the rounded duration
  \<^verbatim>\<open>Math.round((end - start) / 60000)\<close> is not positive, that is when the end is less than
  30 seconds after the start. Otherwise the duration is strictly positive and exactly one
  entry is appended to the list, when the schema accepts the document: its duration is
  that number of minutes and its date is the year, month and day of the start in universal
  time, written \<^verbatim>\<open>YYYY-MM-DD\<close>: a month from 1 to 12 and a day from 1 to 31 of the calendar
  day that contains the start.
\<close>

theorem post_time_tracking_entry:
  assumes "isISO8601 e (map_of b ''startTime'')" and "isISO8601 e (map_of b ''endTime'')"
    and "optional_isString (map_of b ''description'')"
    and "tasks d tid = Some task" and "ref_id (task ''assignedTo'') = Some (user_id user)"
    and "newDate e (map_of b ''startTime'') = Some s"
    and "newDate e (map_of b ''endTime'') = Some t"
    and "task ''timeTracking'' = Some (JArr xs)"
  shows "(fst (post_time_tracking e user tid b d) = BadRequest \<longleftrightarrow> t - s < 30000) \<and>
         (t - s < 30000 \<longrightarrow> post_time_tracking e user tid b d = (BadRequest, d)) \<and>
         (30000 \<le> t - s \<longrightarrow>
            Math_round (of_int (t - s) / (1000 * 60)) = (t - s + 30000) div 60000 \<and>
            0 < Math_round (of_int (t - s) / (1000 * 60)) \<and>
            post_time_tracking e user tid b d =
              (if save_validators e (task(''timeTracking'' \<mapsto> JArr (xs @
                    [object [(''startTime'', Some (JDate (Some s))),
                             (''endTime'', Some (JDate (Some t))),
                             (''duration'', Some (JNum (Fin (of_int
                                 (Math_round (of_int (t - s) / (1000 * 60))))))),
                             (''description'', map_of b ''description''),
                             (''date'', Some (JStr (date_string
                                 (civil_from_days (s div 86400000)))))]])))
               then (OK (JArr (xs @
                    [object [(''startTime'', Some (JDate (Some s))),
                             (''endTime'', Some (JDate (Some t))),
                             (''duration'', Some (JNum (Fin (of_int
                                 (Math_round (of_int (t - s) / (1000 * 60))))))),
                             (''description'', map_of b ''description''),
                             (''date'', Some (JStr (date_string
                                 (civil_from_days (s div 86400000)))))]])),
                     d\<lparr>tasks := (tasks d)(tid \<mapsto> task(''timeTracking'' \<mapsto> JArr (xs @
                    [object [(''startTime'', Some (JDate (Some s))),
                             (''endTime'', Some (JDate (Some t))),
                             (''duration'', Some (JNum (Fin (of_int
                                 (Math_round (of_int (t - s) / (1000 * 60))))))),
                             (''description'', map_of b ''description''),
                             (''date'', Some (JStr (date_string
                                 (civil_from_days (s div 86400000)))))]])))\<rparr>)
               else (ServerError, d))) \<and>
         (case civil_from_days (s div 86400000) of (y, m, dd) \<Rightarrow>
            1 \<le> m \<and> m \<le> 12 \<and> 1 \<le> dd \<and> dd \<le> 31 \<and>
            days_from_civil (y, m, dd) * 86400000 \<le> s \<and>
            s < (days_from_civil (y, m, dd) + 1) * 86400000)"
proof -
  note run = post_time_tracking_run [OF assms(1-7)]
  have day: "case civil_from_days (s div 86400000) of (y, m, dd) \<Rightarrow>
            1 \<le> m \<and> m \<le> 12 \<and> 1 \<le> dd \<and> dd \<le> 31 \<and>
            days_from_civil (y, m, dd) * 86400000 \<le> s \<and>
            s < (days_from_civil (y, m, dd) + 1) * 86400000"
    using civil_from_days_inverse [of "s div 86400000"]
      div_lower [of 86400000 s] div_upper [of 86400000 s]
    by (auto split: prod.splits)
  have m: "Math_round (of_int (t - s) / (1000 * 60)) = (t - s + 30000) div 60000"
    by (rule Math_round_minutes)
  have pos: "0 < (t - s + 30000) div 60000" if "30000 \<le> t - s"
    using that by (simp only: minutes_positive)
  show ?thesis
  proof (cases "t - s < 30000")
    case True
    with run day show ?thesis by simp
  next
    case False
    then have ge: "30000 \<le> t - s" by simp
    from False run assms(8) have "(fst (post_time_tracking e user tid b d) = BadRequest
        \<longleftrightarrow> t - s < 30000) \<and>
      (t - s < 30000 \<longrightarrow> post_time_tracking e user tid b d = (BadRequest, d)) \<and>
      (30000 \<le> t - s \<longrightarrow>
        Math_round (of_int (t - s) / (1000 * 60)) = (t - s + 30000) div 60000 \<and>
        0 < Math_round (of_int (t - s) / (1000 * 60)) \<and>
        post_time_tracking e user tid b d =
          (if save_validators e (task(''timeTracking'' \<mapsto> JArr (xs @
                [object [(''startTime'', Some (JDate (Some s))),
                         (''endTime'', Some (JDate (Some t))),
                         (''duration'', Some (JNum (Fin (of_int
                             (Math_round (of_int (t - s) / (1000 * 60))))))),
                         (''description'', map_of b ''description''),
                         (''date'', Some (JStr (date_string
                             (civil_from_days (s div 86400000)))))]])))
           then (OK (JArr (xs @
                [object [(''startTime'', Some (JDate (Some s))),
                         (''endTime'', Some (JDate (Some t))),
                         (''duration'', Some (JNum (Fin (of_int
                             (Math_round (of_int (t - s) / (1000 * 60))))))),
                         (''description'', map_of b ''description''),
                         (''date'', Some (JStr (date_string
                             (civil_from_days (s div 86400000)))))]])),
                 d\<lparr>tasks := (tasks d)(tid \<mapsto> task(''timeTracking'' \<mapsto> JArr (xs @
                [object [(''startTime'', Some (JDate (Some s))),
                         (''endTime'', Some (JDate (Some t))),
                         (''duration'', Some (JNum (Fin (of_int
                             (Math_round (of_int (t - s) / (1000 * 60))))))),
                         (''description'', map_of b ''description''),
                         (''date'', Some (JStr (date_string
                             (civil_from_days (s div 86400000)))))]])))\<rparr>)
           else (ServerError, d)))"
      apply (simp only: m push_and_save_array)
      using pos [OF ge] apply (simp split: if_splits)
      done
    with day show ?thesis
      by (elim conjE) (intro conjI; assumption)
  qed
qed


lemma ex_valid_times:
  "isISO8601 example_env (map_of body_45min ''startTime'')"
  "isISO8601 example_env (map_of body_45min ''endTime'')"
  "optional_isString (map_of body_45min ''description'')"
  "newDate example_env (map_of body_45min ''startTime'') = Some 32400000"
  "newDate example_env (map_of body_45min ''endTime'') = Some 35100000"
  by (simp_all add: example_env_def body_45min_def example_times_def optional_isString_def)

lemma ex_valid_times_10s:
  "isISO8601 example_env (map_of body_10s ''startTime'')"
  "isISO8601 example_env (map_of body_10s ''endTime'')"
  "optional_isString (map_of body_10s ''description'')"
  "newDate example_env (map_of body_10s ''startTime'') = Some 32400000"
  "newDate example_env (map_of body_10s ''endTime'') = Some 32410000"
  by (simp_all add: example_env_def body_10s_def example_times_def optional_isString_def)

lemma ex_assignee_is_E: "ref_id (task_T ''assignedTo'') = Some (user_id employee_E)"
  by (simp add: task_T_def employee_E_def)

lemma ex_no_entries: "task_T ''timeTracking'' = Some (JArr [])"
  by (simp add: task_T_def)

lemma ex_saves: "save_validators example_env t"
  by (simp add: example_env_def)

lemma ex_epoch_day: "date_string (civil_from_days 0) = ''1970-01-01''"
  by code_simp

theorem post_time_tracking_entry_witness:
  "newDate example_env (map_of body_45min ''startTime'') = Some 32400000 \<and>
   newDate example_env (map_of body_45min ''endTime'') = Some 35100000 \<and>
   fst (post_time_tracking example_env employee_E id_T body_45min example_db) =
     OK (JArr [JObj [(''startTime'', JDate (Some 32400000)),
                     (''endTime'', JDate (Some 35100000)),
                     (''duration'', JNum (Fin 45)),
                     (''date'', JStr ''1970-01-01'')]]) \<and>
   post_time_tracking example_env employee_E id_T body_10s example_db =
     (BadRequest, example_db)"
proof -
  have long: "(30000::int) \<le> 35100000 - 32400000" and short: "(32410000::int) - 32400000 < 30000"
    by simp_all
  have minutes: "((35100000::int) - 32400000 + 30000) div 60000 = 45"
    by simp
  have "fst (post_time_tracking example_env employee_E id_T body_45min example_db) =
     OK (JArr [JObj [(''startTime'', JDate (Some 32400000)),
                     (''endTime'', JDate (Some 35100000)),
                     (''duration'', JNum (Fin 45)),
                     (''date'', JStr ''1970-01-01'')]])"
    using post_time_tracking_entry [OF ex_valid_times(1-3) ex_task_T ex_assignee_is_E
        ex_valid_times(4,5) ex_no_entries] long
    by (simp add: ex_saves ex_epoch_day object_def List.map_filter_def body_45min_def
        Math_round_def)
  moreover have "post_time_tracking example_env employee_E id_T body_10s example_db =
     (BadRequest, example_db)"
    using post_time_tracking_entry [OF ex_valid_times_10s(1-3) ex_task_T ex_assignee_is_E
        ex_valid_times_10s(4,5) ex_no_entries] short
    by blast
  ultimately show ?thesis
    using ex_valid_times(4,5) by simp
qed

text \<open>
  Claim C5 as stated fails: an end 10 seconds after the start is strictly after it, and
  the request of the assignee is rejected, since the duration rounds to zero minutes.
\<close>

theorem time_entry_after_start_rejected:
  "newDate example_env (map_of body_10s ''startTime'') = Some 32400000 \<and>
   newDate example_env (map_of body_10s ''endTime'') = Some 32410000 \<and>
   (32400000::int) < 32410000 \<and>
   ref_id (task_T ''assignedTo'') = Some (user_id employee_E) \<and>
   post_time_tracking example_env employee_E id_T body_10s example_db =
     (BadRequest, example_db)"
  using post_time_tracking_run [OF ex_valid_times_10s(1-3) ex_task_T ex_assignee_is_E
      ex_valid_times_10s(4,5)]
  by (simp add: ex_valid_times_10s ex_assignee_is_E)

section \<open>The completion time\<close>

lemma push_and_save_other_field:
  assumes "tasks d tid = Some task" and "k \<noteq> field"
  shows "map_option (\<lambda>t. t k) (tasks (snd (push_and_save e tid task field x d)) tid) = Some (task k)"
  using assms
  by (auto simp: push_and_save_def Let_def split: option.splits json.splits)

lemma post_comment_other_field:
  assumes "tasks d tid = Some task" and "k \<noteq> ''comments''"
  shows "map_option (\<lambda>t. t k) (tasks (snd (post_comment e user tid b d)) tid) = Some (task k)"
  using assms push_and_save_other_field [OF assms(1), of k "''comments''" e]
  by (auto simp: post_comment_def split: option.splits)

lemma post_time_tracking_other_field:
  assumes "tasks d tid = Some task" and "k \<noteq> ''timeTracking''"
  shows "map_option (\<lambda>t. t k) (tasks (snd (post_time_tracking e user tid b d)) tid) = Some (task k)"
  using assms push_and_save_other_field [OF assms(1), of k "''timeTracking''" e]
  by (auto simp: post_time_tracking_def Let_def split: option.splits)

lemma put_task_outcomes:
  assumes "tasks d tid = Some task"
  shows "put_task e now user tid b d = (ServerError, d) \<or>
         put_task e now user tid b d = (Forbidden, d) \<or>
         put_task e now user tid b d =
           (OK (Some (task ++ special_status now
                        (map_of b |` set (allowedUpdates (isAdminOrHR user))))),
            d\<lparr>tasks := (tasks d)(tid \<mapsto> task ++ special_status now
                        (map_of b |` set (allowedUpdates (isAdminOrHR user))))\<rparr>)"
  using assms
  by (auto simp: put_task_def findByIdAndUpdate_def collect_updates_restrict Let_def
      split: option.splits)


lemma put_task_completion_stamp:
  assumes "tasks d tid = Some task" and "ref_id (task ''assignedTo'') = Some assignee"
    and "isAdminOrHR user \<or> assignee = user_id user"
    and "collect_updates (allowedUpdates (isAdminOrHR user)) b ''status'' = Some (JStr ''completed'')"
    and "update_validators e
          (special_status now (collect_updates (allowedUpdates (isAdminOrHR user)) b))"
  shows "stored_completedAt (snd (put_task e now user tid b d)) tid =
      Some (Some (JDate (Some now)))"
proof -
  let ?U = "special_status now (collect_updates (allowedUpdates (isAdminOrHR user)) b)"
  have "put_task e now user tid b d =
      (OK (Some (task ++ ?U)), d\<lparr>tasks := (tasks d)(tid \<mapsto> task ++ ?U)\<rparr>)"
    using assms by (simp add: put_task_applied collect_updates_restrict)
  moreover have "(task ++ ?U) ''completedAt'' = Some (JDate (Some now))"
    using assms(4) by (simp add: special_status_def map_add_def)
  ultimately show ?thesis
    by (simp add: stored_completedAt_def)
qed

lemma put_task_no_stamp:
  assumes "tasks d tid = Some task"
    and "collect_updates (allowedUpdates (isAdminOrHR user)) b ''status'' \<noteq> Some (JStr ''completed'')"
  shows "stored_completedAt (snd (put_task e now user tid b d)) tid = Some (task ''completedAt'')"
proof -
  let ?U = "map_of b |` set (allowedUpdates (isAdminOrHR user))"
  have same: "special_status now ?U = ?U"
    using assms(2) by (simp add: special_status_def collect_updates_restrict)
  have c: "(task ++ ?U) ''completedAt'' = task ''completedAt''"
    by (simp add: map_add_def restrict_map_def completedAt_not_allowed)
  from put_task_outcomes [OF assms(1), of e now user b] show ?thesis
    unfolding same using assms(1) c
    by (auto simp: stored_completedAt_def)
qed

text \<open>
  Claim C6, as amended. \<^verbatim>\<open>completedAt\<close> is assigned by every update whose applied fields
  set the status to \<^verbatim>\<open>completed\<close>, the first and any later one, each time to the time of
  that update, whatever the task held before. An update whose applied fields do not set
  the status to \<^verbatim>\<open>completed\<close>, the append of a comment and the append of a time entry
  leave it as it was.
\<close>

theorem completedAt_assigned_by_each_completion:
  assumes "tasks d tid = Some task"
  shows "(ref_id (task ''assignedTo'') = Some assignee \<and>
          (isAdminOrHR user \<or> assignee = user_id user) \<and>
          collect_updates (allowedUpdates (isAdminOrHR user)) b ''status'' =
            Some (JStr ''completed'') \<and>
          update_validators e
            (special_status now (collect_updates (allowedUpdates (isAdminOrHR user)) b)) \<longrightarrow>
            stored_completedAt (snd (put_task e now user tid b d)) tid =
              Some (Some (JDate (Some now)))) \<and>
         (collect_updates (allowedUpdates (isAdminOrHR user)) b ''status'' \<noteq>
            Some (JStr ''completed'') \<longrightarrow>
            stored_completedAt (snd (put_task e now user tid b d)) tid =
              Some (task ''completedAt'')) \<and>
         stored_completedAt (snd (post_comment e user tid b d)) tid = Some (task ''completedAt'') \<and>
         stored_completedAt (snd (post_time_tracking e user tid b d)) tid =
           Some (task ''completedAt'')"
proof (intro conjI impI)
  assume "ref_id (task ''assignedTo'') = Some assignee \<and>
          (isAdminOrHR user \<or> assignee = user_id user) \<and>
          collect_updates (allowedUpdates (isAdminOrHR user)) b ''status'' =
            Some (JStr ''completed'') \<and>
          update_validators e
            (special_status now (collect_updates (allowedUpdates (isAdminOrHR user)) b))"
  with assms show "stored_completedAt (snd (put_task e now user tid b d)) tid =
      Some (Some (JDate (Some now)))"
    by (simp add: put_task_completion_stamp)
next
  assume "collect_updates (allowedUpdates (isAdminOrHR user)) b ''status'' \<noteq>
            Some (JStr ''completed'')"
  with assms show "stored_completedAt (snd (put_task e now user tid b d)) tid =
      Some (task ''completedAt'')"
    by (rule put_task_no_stamp)
next
  show "stored_completedAt (snd (post_comment e user tid b d)) tid = Some (task ''completedAt'')"
    unfolding stored_completedAt_def
    by (rule post_comment_other_field [OF assms]) simp
next
  show "stored_completedAt (snd (post_time_tracking e user tid b d)) tid =
      Some (task ''completedAt'')"
    unfolding stored_completedAt_def
    by (rule post_time_tracking_other_field [OF assms]) simp
qed

lemma ex_applied_again:
  "collect_updates (allowedUpdates (isAdminOrHR employee_E)) [(''status'', JStr ''completed'')]
     ''status'' = Some (JStr ''completed'')"
  by (simp add: collect_updates_restrict status_allowed)

lemma ex_T2_completed:
  "stored_completedAt example_db id_T2 = Some (Some (JDate (Some 1000)))"
  "task_T2 ''status'' = Some (JStr ''completed'')"
  by (simp_all add: stored_completedAt_def ex_task_T2) (simp_all add: task_T2_def)

theorem completedAt_assigned_by_each_completion_witness:
  "stored_completedAt example_db id_T2 = Some (Some (JDate (Some 1000))) \<and>
   stored_completedAt
     (snd (put_task example_env 2000 employee_E id_T2 [(''status'', JStr ''completed'')] example_db))
     id_T2 = Some (Some (JDate (Some 2000))) \<and>
   stored_completedAt
     (snd (post_comment example_env employee_E id_T2 [(''comment'', JStr ''done'')] example_db))
     id_T2 = Some (Some (JDate (Some 1000)))"
proof -
  have auth: "isAdminOrHR employee_E \<or> id_E = user_id employee_E"
    by (simp add: ex_E_id)
  note inst = completedAt_assigned_by_each_completion [OF ex_task_T2, of id_E employee_E]
  have "stored_completedAt
     (snd (put_task example_env 2000 employee_E id_T2 [(''status'', JStr ''completed'')] example_db))
     id_T2 = Some (Some (JDate (Some 2000)))"
    using inst [of "[(''status'', JStr ''completed'')]" example_env 2000]
      ex_assignee_T2 auth ex_applied_again ex_accepts
    by blast
  moreover have "stored_completedAt
     (snd (post_comment example_env employee_E id_T2 [(''comment'', JStr ''done'')] example_db))
     id_T2 = Some (task_T2 ''completedAt'')"
    using inst [of "[(''comment'', JStr ''done'')]" example_env 2000]
    by blast
  ultimately show ?thesis
    using ex_T2_completed(1) by (simp add: task_T2_def)
qed

text \<open>
  Claim C6 as stated fails: a task completed at time 1000 that its assignee updates again
  with the status \<^verbatim>\<open>completed\<close> at time 2000 gets a second, different \<^verbatim>\<open>completedAt\<close>.
\<close>

theorem completedAt_assigned_twice:
  "task_T2 ''status'' = Some (JStr ''completed'') \<and>
   stored_completedAt example_db id_T2 = Some (Some (JDate (Some 1000))) \<and>
   stored_completedAt
     (snd (put_task example_env 2000 employee_E id_T2 [(''status'', JStr ''completed'')] example_db))
     id_T2 = Some (Some (JDate (Some 2000)))"
proof -
  have auth: "isAdminOrHR employee_E \<or> id_E = user_id employee_E"
    by (simp add: ex_E_id)
  from put_task_completion_stamp [OF ex_task_T2 ex_assignee_T2 auth ex_applied_again ex_accepts]
  show ?thesis
    by (simp add: ex_T2_completed)
qed

section \<open>Existence and authorization\<close>







lemma ex_no_task: "tasks example_db id_new = None"
  by (simp add: example_db_def id_new_def id_T_def id_T2_def)



section \<open>The list of tasks\<close>


lemma get_tasks_error:
  "get_tasks e user q = ServerError \<longleftrightarrow> RegExp_throws e (search_filter (q_search q))"
  by (simp add: get_tasks_def Let_def)

lemma get_tasks_OK:
  assumes "get_tasks e user q = OK r"
  shows "r = \<lparr>find_query =
                 \<lparr>query_assignedTo = Some (visible_assignee user (q_assignedTo q)),
                  query_status = status_filter (q_status q),
                  query_priority = plain_filter (q_priority q),
                  query_category = plain_filter (q_category q),
                  query_createdAt = None,
                  query_or = search_filter (q_search q)\<rparr>,
              find_sort = (case q_sortBy q of None \<Rightarrow> ''createdAt'' | Some s \<Rightarrow> s,
                           parseInt (with_default (- 1) (q_sortOrder q))),
              find_skip = num_mul (num_sub (ToNumber (with_default 1 (q_page q))) (Fin 1))
                            (ToNumber (with_default 10 (q_limit q))),
              find_limit = parseInt (with_default 10 (q_limit q)),
              currentPage = parseInt (with_default 1 (q_page q)),
              hasPrev = num_less (Fin 1) (ToNumber (with_default 1 (q_page q)))\<rparr>"
  using assms by (simp add: get_tasks_def Let_def split: if_splits)

lemma get_tasks_ignores_assignee:
  assumes "\<not> isAdminOrHR user"
  shows "get_tasks e user (q\<lparr>q_assignedTo := a\<rparr>) = get_tasks e user q"
  using assms by (simp add: get_tasks_def visible_assignee_def)

text \<open>
  Claim C1. In the query of every list request, the assignee is the caller's own id when
  the caller's role is neither admin nor hr, whatever assignee filter the request
  supplies: the filter is ignored, the answer is the same with any other value of it, and
  it never makes the request fail. For an admin or hr caller the assignee is the one the
  request supplies, and the caller's own id when the request supplies none. A filter is
  supplied when the parameter is a non-empty string; the handler's truth test takes an
  empty parameter for none.
\<close>

theorem list_tasks_visibility:
  "(\<forall>r. get_tasks e user q = OK r \<longrightarrow>
      (\<not> (user_role user = ''admin'' \<or> user_role user = ''hr'') \<longrightarrow>
         query_assignedTo (find_query r) = Some (user_id user)) \<and>
      (user_role user = ''admin'' \<or> user_role user = ''hr'' \<longrightarrow>
         (\<forall>a. q_assignedTo q = Some a \<and> a \<noteq> [] \<longrightarrow>
            query_assignedTo (find_query r) = Some a) \<and>
         (q_assignedTo q = None \<or> q_assignedTo q = Some [] \<longrightarrow>
            query_assignedTo (find_query r) = Some (user_id user)))) \<and>
   (\<not> (user_role user = ''admin'' \<or> user_role user = ''hr'') \<longrightarrow>
      get_tasks e user (q\<lparr>q_assignedTo := a'\<rparr>) = get_tasks e user q) \<and>
   (get_tasks e user (q\<lparr>q_assignedTo := a'\<rparr>) = ServerError \<longleftrightarrow>
      get_tasks e user q = ServerError)"
proof (intro conjI allI impI)
  fix r
  assume ok: "get_tasks e user q = OK r"
  have a: "query_assignedTo (find_query r) = Some (visible_assignee user (q_assignedTo q))"
    by (subst get_tasks_OK [OF ok]) simp
  {
    assume "\<not> (user_role user = ''admin'' \<or> user_role user = ''hr'')"
    then show "query_assignedTo (find_query r) = Some (user_id user)"
      by (simp add: a visible_assignee_def isAdminOrHR_def)
  next
    fix x
    assume "user_role user = ''admin'' \<or> user_role user = ''hr''"
      and "q_assignedTo q = Some x \<and> x \<noteq> []"
    then show "query_assignedTo (find_query r) = Some x"
      by (auto simp: a visible_assignee_def isAdminOrHR_def truthy_def)
  next
    assume "user_role user = ''admin'' \<or> user_role user = ''hr''"
      and "q_assignedTo q = None \<or> q_assignedTo q = Some []"
    then show "query_assignedTo (find_query r) = Some (user_id user)"
      by (auto simp: a visible_assignee_def isAdminOrHR_def truthy_def)
  }
next
  assume "\<not> (user_role user = ''admin'' \<or> user_role user = ''hr'')"
  then show "get_tasks e user (q\<lparr>q_assignedTo := a'\<rparr>) = get_tasks e user q"
    by (simp add: get_tasks_ignores_assignee isAdminOrHR_def)
next
  show "get_tasks e user (q\<lparr>q_assignedTo := a'\<rparr>) = ServerError \<longleftrightarrow>
      get_tasks e user q = ServerError"
    by (simp add: get_tasks_error)
qed

lemma ex_list_ok:
  "\<exists>r. get_tasks example_env user (no_query\<lparr>q_assignedTo := a\<rparr>) = OK r"
  by (simp add: get_tasks_def Let_def no_query_def search_filter_def truthy_def
      RegExp_throws_def)

theorem list_tasks_visibility_witness:
  "(\<exists>r. get_tasks example_env employee_E (no_query\<lparr>q_assignedTo := Some id_F\<rparr>) = OK r \<and>
        query_assignedTo (find_query r) = Some id_E) \<and>
   (\<exists>r. get_tasks example_env hr_H (no_query\<lparr>q_assignedTo := Some id_E\<rparr>) = OK r \<and>
        query_assignedTo (find_query r) = Some id_E) \<and>
   (\<exists>r. get_tasks example_env hr_H (no_query\<lparr>q_assignedTo := None\<rparr>) = OK r \<and>
        query_assignedTo (find_query r) = Some id_H)"
proof -
  have roles: "\<not> (user_role employee_E = ''admin'' \<or> user_role employee_E = ''hr'')"
    "user_role hr_H = ''admin'' \<or> user_role hr_H = ''hr''"
    "user_id employee_E = id_E" "user_id hr_H = id_H"
    by (simp_all add: employee_E_def hr_H_def)
  have supplied: "q_assignedTo (no_query\<lparr>q_assignedTo := Some id_E\<rparr>) = Some id_E \<and> id_E \<noteq> []"
    "q_assignedTo (no_query\<lparr>q_assignedTo := None\<rparr>) = None"
    by (simp_all add: id_E_def)
  obtain r1 where r1: "get_tasks example_env employee_E (no_query\<lparr>q_assignedTo := Some id_F\<rparr>) = OK r1"
    using ex_list_ok by blast
  obtain r2 where r2: "get_tasks example_env hr_H (no_query\<lparr>q_assignedTo := Some id_E\<rparr>) = OK r2"
    using ex_list_ok by blast
  obtain r3 where r3: "get_tasks example_env hr_H (no_query\<lparr>q_assignedTo := None\<rparr>) = OK r3"
    using ex_list_ok by blast
  have "query_assignedTo (find_query r1) = Some id_E"
    using list_tasks_visibility [of example_env employee_E "no_query\<lparr>q_assignedTo := Some id_F\<rparr>"]
      r1 roles by simp
  moreover have "query_assignedTo (find_query r2) = Some id_E"
    using list_tasks_visibility [of example_env hr_H "no_query\<lparr>q_assignedTo := Some id_E\<rparr>"]
      r2 roles supplied(1) by blast
  moreover have "query_assignedTo (find_query r3) = Some id_H"
    using list_tasks_visibility [of example_env hr_H "no_query\<lparr>q_assignedTo := None\<rparr>"]
      r3 roles supplied(2) by simp
  ultimately show ?thesis
    using r1 r2 r3 by simp
qed











section \<open>The creation of a task\<close>

lemma post_task_created:
  assumes "post_task e new_id user b d = (Created task, d')"
  shows "task = new_Task e user b \<and> tasks d' new_id = Some task"
  using assms
  by (auto simp: post_task_def push_assigned_def Let_def split: if_splits option.splits)

lemma new_Task_assignedBy: "new_Task e user b ''assignedBy'' = Some (JStr (user_id user))"
  by (simp add: new_Task_def)

lemma post_task_agree:
  assumes "\<forall>k. k \<noteq> ''assignedBy'' \<longrightarrow> map_of b' k = map_of b k"
  shows "post_task e new_id user b' d = post_task e new_id user b d"
proof -
  have v: "validate_task e b' = validate_task e b"
    using assms by (simp add: validate_task_def)
  have a: "map_of b' ''assignedTo'' = map_of b ''assignedTo''"
    using assms by simp
  have "map_of b' |` set task_fields = map_of b |` set task_fields"
    using assms by (auto simp: restrict_map_def task_fields_def fun_eq_iff)
  then have n: "new_Task e user b' = new_Task e user b"
    by (simp add: new_Task_def)
  show ?thesis
    unfolding post_task_def v a n by (rule refl)
qed

text \<open>
  Claim C7. The task a creation request creates has the authenticated caller's id as its
  \<^verbatim>\<open>assignedBy\<close>, and it is the task stored under the new id. An \<^verbatim>\<open>assignedBy\<close> in the
  request body has no influence: two bodies that differ at most in that key get the same
  answer and leave the same database.
\<close>

theorem post_task_creator:
  assumes "\<forall>k. k \<noteq> ''assignedBy'' \<longrightarrow> map_of b' k = map_of b k"
  shows "post_task e new_id user b' d = post_task e new_id user b d \<and>
         (\<forall>task d'. post_task e new_id user b d = (Created task, d') \<longrightarrow>
            task ''assignedBy'' = Some (JStr (user_id user)) \<and> tasks d' new_id = Some task)"
  using post_task_agree [OF assms] post_task_created new_Task_assignedBy
  by metis

lemma ex_forged: "\<forall>k. k \<noteq> ''assignedBy'' \<longrightarrow> map_of body_create_forged k = map_of body_create k"
  by (simp add: body_create_forged_def)

lemma ex_create:
  "post_task example_env id_new hr_H body_create example_db =
    (Created (new_Task example_env hr_H body_create),
     push_assigned id_E id_new
       (example_db\<lparr>tasks := (tasks example_db)(id_new \<mapsto> new_Task example_env hr_H body_create)\<rparr>))"
proof -
  have "authorize [''admin'', ''hr''] hr_H"
    by (simp add: authorize_def hr_H_def)
  moreover have "validate_task example_env body_create"
    by (simp add: validate_task_def example_env_def body_create_def id_E_def example_times_def
        is_digit_def digit_value_def)
  moreover have "ref_id (map_of body_create ''assignedTo'') = Some id_E"
    by (simp add: body_create_def)
  moreover have "users example_db id_E \<noteq> None"
    by (simp add: example_db_def example_users_def id_E_def id_F_def id_H_def id_A_def)
  ultimately show ?thesis
    by (auto simp: post_task_def ex_saves ex_no_task Let_def)
qed

theorem post_task_creator_witness:
  "map_of body_create_forged ''assignedBy'' = Some (JStr id_A) \<and>
   map_of body_create ''assignedBy'' = None \<and>
   post_task example_env id_new hr_H body_create_forged example_db =
     post_task example_env id_new hr_H body_create example_db \<and>
   fst (post_task example_env id_new hr_H body_create_forged example_db) =
     Created (new_Task example_env hr_H body_create) \<and>
   new_Task example_env hr_H body_create ''assignedBy'' = Some (JStr id_H) \<and>
   tasks (snd (post_task example_env id_new hr_H body_create_forged example_db)) id_new =
     Some (new_Task example_env hr_H body_create)"
proof -
  note inst = post_task_creator [OF ex_forged, of example_env id_new hr_H example_db]
  from inst have same: "post_task example_env id_new hr_H body_create_forged example_db =
     post_task example_env id_new hr_H body_create example_db"
    by (rule conjunct1)
  from inst ex_create
  have "new_Task example_env hr_H body_create ''assignedBy'' = Some (JStr (user_id hr_H)) \<and>
    tasks (push_assigned id_E id_new
       (example_db\<lparr>tasks := (tasks example_db)(id_new \<mapsto> new_Task example_env hr_H body_create)\<rparr>))
      id_new = Some (new_Task example_env hr_H body_create)"
    by blast
  moreover have "map_of body_create_forged ''assignedBy'' = Some (JStr id_A)"
    and "map_of body_create ''assignedBy'' = None"
    by (simp_all add: body_create_forged_def body_create_def)
  ultimately show ?thesis
    using same ex_create by (simp add: hr_H_def)
qed

section \<open>The reports\<close>






















end
